theory Spec2Isabelle
  imports Main "HOL-Library.Sublist" "HOL-Library.AList"
begin

section \<open>Values, dictionaries and data frames\<close>

text \<open>
  Python values that travel through the pipeline: \<open>None\<close>/NaN/SQL NULL is \<open>Null\<close>, numbers
  are \<open>Num\<close>, strings, dates and timestamps are \<open>Text\<close>. A Python \<open>dict\<close> is an
  association list (insertion order) read with \<open>dict.get\<close>; a pandas DataFrame is its
  column labels and its rows, each row a function from column label to cell value.
\<close>

datatype val = Null | Num int | Text string

type_synonym ticker = string
type_synonym pydict = "(string \<times> val) list"

definition dget :: "pydict \<Rightarrow> string \<Rightarrow> val" where
  \<comment> \<open>\<open>d.get(k)\<close>: \<open>None\<close> when the key is absent.\<close>
  "dget d k = (case map_of d k of None \<Rightarrow> Null | Some v \<Rightarrow> v)"

definition truthy :: "pydict option \<Rightarrow> bool" where
  \<comment> \<open>\<open>if data:\<close> on an optional dict: \<open>None\<close> and \<open>{}\<close> are falsy.\<close>
  "truthy d = (case d of None \<Rightarrow> False | Some kv \<Rightarrow> kv \<noteq> [])"

record frame =
  columns :: "string list"
  rows :: "(string \<Rightarrow> val) list"

definition df_empty :: "frame \<Rightarrow> bool" where
  \<comment> \<open>\<open>df.empty\<close>: some axis has length 0.\<close>
  "df_empty df = (columns df = [] \<or> rows df = [])"

text \<open>A call into an external library either raises or returns a value.\<close>

datatype 'a outcome = Raise | Value 'a

section \<open>The extractor (data\_extractor.py)\<close>

subsection \<open>External providers\<close>

datatype api = yfinance | fmp | finnhub | alpha_vantage

text \<open>
  A yfinance financial statement (\<open>stock.balance_sheet\<close> and its siblings) has the line
  items as index and the period dates as column labels.
\<close>

record yf_table =
  periods :: "val list"
  items :: "string list"
  cell :: "string \<Rightarrow> val \<Rightarrow> val"

definition yf_empty :: "yf_table \<Rightarrow> bool" where
  "yf_empty tb = (periods tb = [] \<or> items tb = [])"

text \<open>
  \<open>stock.calendar\<close>: whether the frame is empty, and the dictionary that
  \<open>calendar.T.to_dict().get(0, {})\<close> evaluates to.
\<close>

record yf_calendar =
  cal_empty :: bool
  cal_row0 :: pydict

text \<open>
  The price history \<open>yf.download\<close> returns around one announcement date: whether it is
  empty, the close of the business day before (\<open>Null\<close> when that day has no row) and the
  open of the business day after.
\<close>

record yf_history =
  hist_empty :: bool
  close_before :: val
  open_after :: val

record yf_module =
  yf_info :: "ticker \<Rightarrow> pydict outcome"
  yf_calendar :: "ticker \<Rightarrow> yf_calendar option outcome"
  yf_balance_sheet :: "ticker \<Rightarrow> yf_table option outcome"
  yf_quarterly_balance_sheet :: "ticker \<Rightarrow> yf_table option outcome"
  yf_financials :: "ticker \<Rightarrow> yf_table option outcome"
  yf_quarterly_financials :: "ticker \<Rightarrow> yf_table option outcome"
  yf_cashflow :: "ticker \<Rightarrow> yf_table option outcome"
  yf_quarterly_cashflow :: "ticker \<Rightarrow> yf_table option outcome"
  yf_institutional_holders :: "ticker \<Rightarrow> frame option outcome"
  yf_earnings_dates :: "ticker \<Rightarrow> val list option outcome"
  yf_download :: "ticker \<Rightarrow> val \<Rightarrow> yf_history outcome"
  yf_change_percent :: "val \<Rightarrow> val \<Rightarrow> val"

record fmp_client =
  fmp_get_company_profile :: "ticker \<Rightarrow> pydict option outcome"
  fmp_get_earnings_calendar :: "ticker \<Rightarrow> pydict option outcome"

record finnhub_client =
  finnhub_get_company_profile :: "ticker \<Rightarrow> pydict option outcome"
  finnhub_get_insider_transactions :: "ticker \<Rightarrow> pydict option outcome"

record alpha_vantage_client =
  av_get_quote :: "ticker \<Rightarrow> pydict option outcome"
  av_get_earnings_calendar :: "ticker \<Rightarrow> pydict option outcome"

text \<open>\<open>StockDataExtractor.__init__\<close>: the three optional clients; yfinance is a module.\<close>

record extractor =
  yf :: yf_module
  fmp_client :: "fmp_client option"
  finnhub_client :: "finnhub_client option"
  alpha_vantage_client :: "alpha_vantage_client option"

definition api_priority :: "string \<Rightarrow> api list" where
  "api_priority data_type =
    (if data_type = ''price'' then [yfinance, alpha_vantage]
     else if data_type = ''org_overview'' then [yfinance, fmp, finnhub]
     else if data_type = ''calendar_events'' then [yfinance, fmp, alpha_vantage]
     else if data_type = ''balance_sheet'' then [yfinance, fmp, alpha_vantage]
     else if data_type = ''cash_flow'' then [yfinance, fmp, alpha_vantage]
     else if data_type = ''income_statement'' then [yfinance, fmp, alpha_vantage]
     else if data_type = ''valuation_measures'' then [yfinance, fmp]
     else if data_type = ''institution_ownership'' then [yfinance, fmp]
     else if data_type = ''executive_ownership'' then [finnhub, yfinance]
     else if data_type = ''announcement_price'' then [yfinance]
     else [])"

subsection \<open>The fallback loop\<close>

text \<open>
  Every \<open>extract_*\<close> method has the shape
  \<^verbatim>\<open>for api in self.api_priority[k]: try: <branches> except Exception: continue\<close>
  followed by \<open>return None\<close>. A branch first asks its provider and judges the answer
  (\<open>probe\<close>): no branch applies to this provider and nothing is called (\<open>NoBranch\<close>),
  the call raises (\<open>Threw\<close>), the answer is judged empty (\<open>NoData\<close>), or there is a
  non-empty answer (\<open>Answer\<close>). On a non-empty answer the branch evaluates the operand
  of its \<open>return\<close> statement, which may itself raise inside the \<open>try\<close>.
  One pass through the loop body therefore ends in one of four ways (\<open>step\<close>): nothing
  called, an exception caught, control falling out of the \<open>if\<close>, or a \<open>return\<close>.
  \<open>walk\<close> gives the method's result and the providers it called, in call order.
\<close>

datatype 'd probe = NoBranch | Threw | NoData | Answer 'd

datatype 'r step = Skipped | Raised | Fell | Returned "'r option"

definition attempt :: "'d probe \<Rightarrow> ('d \<Rightarrow> 'r option outcome) \<Rightarrow> 'r step" where
  "attempt p build =
    (case p of
       NoBranch \<Rightarrow> Skipped
     | Threw \<Rightarrow> Raised
     | NoData \<Rightarrow> Fell
     | Answer d \<Rightarrow> (case build d of Raise \<Rightarrow> Raised | Value r \<Rightarrow> Returned r))"

fun walk :: "(api \<Rightarrow> 'r step) \<Rightarrow> api list \<Rightarrow> 'r option \<times> api list" where
  "walk body [] = (None, [])"
| "walk body (a # rest) =
    (case body a of
       Skipped \<Rightarrow> walk body rest
     | Raised \<Rightarrow> (fst (walk body rest), a # snd (walk body rest))
     | Fell \<Rightarrow> (fst (walk body rest), a # snd (walk body rest))
     | Returned r \<Rightarrow> (r, [a]))"

definition answered :: "'d probe \<Rightarrow> bool" where
  "answered p = (case p of Answer d \<Rightarrow> True | _ \<Rightarrow> False)"

definition was_called :: "'d probe \<Rightarrow> bool" where
  "was_called p = (case p of NoBranch \<Rightarrow> False | _ \<Rightarrow> True)"

definition forget :: "'d probe \<Rightarrow> unit probe" where
  "forget p = (case p of NoBranch \<Rightarrow> NoBranch | Threw \<Rightarrow> Threw | NoData \<Rightarrow> NoData
                | Answer d \<Rightarrow> Answer ())"

subsection \<open>Formatting helpers\<close>

text \<open>
  The four helpers the class defines are stubs whose body is \<open>pass\<close>: they return
  \<open>None\<close>. \<open>_format_alpha_vantage_calendar\<close> and \<open>_format_finnhub_insider\<close> are called
  but the class does not define them, so the attribute lookup raises \<open>AttributeError\<close>
  inside the \<open>try\<close>.
\<close>

definition format_fmp_overview :: "pydict \<Rightarrow> ticker \<Rightarrow> pydict option outcome" where
  "format_fmp_overview data t = Value None"

definition format_finnhub_overview :: "pydict \<Rightarrow> ticker \<Rightarrow> pydict option outcome" where
  "format_finnhub_overview data t = Value None"

definition format_alpha_vantage_price :: "pydict \<Rightarrow> ticker \<Rightarrow> pydict option outcome" where
  "format_alpha_vantage_price data t = Value None"

definition format_fmp_calendar :: "pydict \<Rightarrow> ticker \<Rightarrow> pydict option outcome" where
  "format_fmp_calendar data t = Value None"

definition format_alpha_vantage_calendar :: "pydict \<Rightarrow> ticker \<Rightarrow> pydict option outcome" where
  "format_alpha_vantage_calendar data t = Raise"

definition format_finnhub_insider :: "pydict \<Rightarrow> ticker \<Rightarrow> frame option outcome" where
  "format_finnhub_insider data t = Raise"

definition ask_client :: "pydict option outcome \<Rightarrow> pydict probe" where
  \<comment> \<open>\<open>data = client.method(ticker)\<close> followed by \<open>if data:\<close>.\<close>
  "ask_client r =
    (case r of Raise \<Rightarrow> Threw
     | Value data \<Rightarrow> if truthy data then Answer (the data) else NoData)"

subsection \<open>Single-record categories\<close>

definition price_probe :: "extractor \<Rightarrow> ticker \<Rightarrow> api \<Rightarrow> pydict probe" where
  "price_probe ex t a =
    (if a = yfinance then
       (case yf_info (yf ex) t of
          Raise \<Rightarrow> Threw
        | Value info \<Rightarrow> if dget info ''regularMarketPrice'' \<noteq> Null then Answer info else NoData)
     else if a = alpha_vantage \<and> alpha_vantage_client ex \<noteq> None then
       ask_client (av_get_quote (the (alpha_vantage_client ex)) t)
     else NoBranch)"

definition price_return :: "ticker \<Rightarrow> api \<Rightarrow> pydict \<Rightarrow> pydict option outcome" where
  "price_return t a d =
    (if a = yfinance then
       Value (Some
         [(''symbol'', Text t),
          (''regularMarketPrice'', dget d ''regularMarketPrice''),
          (''regularMarketChangePercent'', dget d ''regularMarketChangePercent''),
          (''regularMarketChange'', dget d ''regularMarketChange''),
          (''regularMarketDayHigh'', dget d ''regularMarketDayHigh''),
          (''regularMarketDayLow'', dget d ''regularMarketDayLow''),
          (''regularMarketVolume'', dget d ''regularMarketVolume''),
          (''regularMarketPreviousClose'', dget d ''regularMarketPreviousClose''),
          (''regularMarketOpen'', dget d ''regularMarketOpen''),
          (''exchangeName'', dget d ''exchange''),
          (''longName'', dget d ''longName''),
          (''currency'', dget d ''currency''),
          (''marketCap'', dget d ''marketCap'')])
     else format_alpha_vantage_price d t)"

definition extract_price_data :: "extractor \<Rightarrow> ticker \<Rightarrow> pydict option \<times> api list" where
  "extract_price_data ex t =
     walk (\<lambda>a. attempt (price_probe ex t a) (price_return t a)) (api_priority ''price'')"

definition org_overview_probe :: "extractor \<Rightarrow> ticker \<Rightarrow> api \<Rightarrow> pydict probe" where
  "org_overview_probe ex t a =
    (if a = yfinance then
       (case yf_info (yf ex) t of
          Raise \<Rightarrow> Threw
        | Value info \<Rightarrow> if info \<noteq> [] then Answer info else NoData)
     else if a = fmp \<and> fmp_client ex \<noteq> None then
       ask_client (fmp_get_company_profile (the (fmp_client ex)) t)
     else if a = finnhub \<and> finnhub_client ex \<noteq> None then
       ask_client (finnhub_get_company_profile (the (finnhub_client ex)) t)
     else NoBranch)"

definition org_overview_return :: "ticker \<Rightarrow> api \<Rightarrow> pydict \<Rightarrow> pydict option outcome" where
  "org_overview_return t a d =
    (if a = yfinance then
       Value (Some
         [(''symbol'', Text t),
          (''address1'', dget d ''address1''),
          (''city'', dget d ''city''),
          (''zip'', dget d ''zip''),
          (''country'', dget d ''country''),
          (''phone'', dget d ''phone''),
          (''website'', dget d ''website''),
          (''industry'', dget d ''industry''),
          (''sector'', dget d ''sector''),
          (''longBusinessSummary'', dget d ''longBusinessSummary''),
          (''fullTimeEmployees'', dget d ''fullTimeEmployees''),
          (''enterpriseValue'', dget d ''enterpriseValue''),
          (''bookValue'', dget d ''bookValue''),
          (''priceToBook'', dget d ''priceToBook''),
          (''forwardPE'', dget d ''forwardPE''),
          (''profitMargins'', dget d ''profitMargins''),
          (''sharesOutstanding'', dget d ''sharesOutstanding'')])
     else if a = fmp then format_fmp_overview d t
     else format_finnhub_overview d t)"

definition extract_org_overview :: "extractor \<Rightarrow> ticker \<Rightarrow> pydict option \<times> api list" where
  "extract_org_overview ex t =
     walk (\<lambda>a. attempt (org_overview_probe ex t a) (org_overview_return t a))
       (api_priority ''org_overview'')"

definition calendar_events_probe :: "extractor \<Rightarrow> ticker \<Rightarrow> api \<Rightarrow> pydict probe" where
  "calendar_events_probe ex t a =
    (if a = yfinance then
       (case yf_calendar (yf ex) t of
          Raise \<Rightarrow> Threw
        | Value None \<Rightarrow> NoData
        | Value (Some cal) \<Rightarrow> if \<not> cal_empty cal then Answer (cal_row0 cal) else NoData)
     else if a = fmp \<and> fmp_client ex \<noteq> None then
       ask_client (fmp_get_earnings_calendar (the (fmp_client ex)) t)
     else if a = alpha_vantage \<and> alpha_vantage_client ex \<noteq> None then
       ask_client (av_get_earnings_calendar (the (alpha_vantage_client ex)) t)
     else NoBranch)"

definition calendar_events_return :: "ticker \<Rightarrow> api \<Rightarrow> pydict \<Rightarrow> pydict option outcome" where
  "calendar_events_return t a d =
    (if a = yfinance then
       Value (Some
         [(''symbol'', Text t),
          (''earnings_date'', dget d ''Earnings Date''),
          (''earnings_average'', dget d ''Earnings Average''),
          (''earnings_low'', dget d ''Earnings Low''),
          (''earnings_high'', dget d ''Earnings High''),
          (''revenue_average'', dget d ''Revenue Average'')])
     else if a = fmp then format_fmp_calendar d t
     else format_alpha_vantage_calendar d t)"

definition extract_calendar_events :: "extractor \<Rightarrow> ticker \<Rightarrow> pydict option \<times> api list" where
  "extract_calendar_events ex t =
     walk (\<lambda>a. attempt (calendar_events_probe ex t a) (calendar_events_return t a))
       (api_priority ''calendar_events'')"

definition valuation_measures_probe :: "extractor \<Rightarrow> ticker \<Rightarrow> api \<Rightarrow> pydict probe" where
  "valuation_measures_probe ex t a =
    (if a = yfinance then
       (case yf_info (yf ex) t of
          Raise \<Rightarrow> Threw
        | Value info \<Rightarrow> if info \<noteq> [] then Answer info else NoData)
     else NoBranch)"

definition valuation_measures_return :: "ticker \<Rightarrow> api \<Rightarrow> pydict \<Rightarrow> pydict option outcome" where
  "valuation_measures_return t a d =
     Value (Some
       [(''symbol'', Text t),
        (''PriceToEarningsRatio'', dget d ''trailingPE''),
        (''PriceToSalesRatio'', dget d ''priceToSalesTrailing12Months''),
        (''PriceToBookRatio'', dget d ''priceToBook''),
        (''EnterpiseToRevenue'', dget d ''enterpriseToRevenue''),
        (''EnterpiseToEbitda'', dget d ''enterpriseToEbitda'')])"

definition extract_valuation_measures ::
  "extractor \<Rightarrow> ticker \<Rightarrow> pydict option \<times> api list" where
  "extract_valuation_measures ex t =
     walk (\<lambda>a. attempt (valuation_measures_probe ex t a) (valuation_measures_return t a))
       (api_priority ''valuation_measures'')"

subsection \<open>Tabular categories\<close>

text \<open>
  \<open>tb.T.reset_index()\<close>: the periods become rows and the old index a first column,
  named \<open>index\<close>, or \<open>level_0\<close> when a column \<open>index\<close> exists already; pandas raises
  when that name is taken too.
\<close>

definition T_reset_index :: "yf_table \<Rightarrow> frame outcome" where
  "T_reset_index tb =
    (let nm = (if ''index'' \<in> set (items tb) then ''level_0'' else ''index'')
     in if nm \<in> set (items tb) then Raise
        else Value \<lparr>columns = nm # items tb,
                    rows = map (\<lambda>p c. if c = nm then p else cell tb c p) (periods tb)\<rparr>)"

definition set_column :: "frame \<Rightarrow> string \<Rightarrow> val \<Rightarrow> frame" where
  \<comment> \<open>\<open>df[c] = v\<close> with a scalar.\<close>
  "set_column df c v =
     \<lparr>columns = (if c \<in> set (columns df) then columns df else columns df @ [c]),
      rows = map (\<lambda>r. r(c := v)) (rows df)\<rparr>"

definition rename_label :: "(string \<times> string) list \<Rightarrow> string \<Rightarrow> string" where
  "rename_label m c = (case map_of m c of None \<Rightarrow> c | Some n \<Rightarrow> n)"

definition rename :: "frame \<Rightarrow> (string \<times> string) list \<Rightarrow> frame" where
  \<comment> \<open>\<open>df.rename(columns=m)\<close>: a cell is found under its column's new label.\<close>
  "rename df m =
     \<lparr>columns = map (rename_label m) (columns df),
      rows = map (\<lambda>r c. case find (\<lambda>old. rename_label m old = c) (columns df) of
                           None \<Rightarrow> Null | Some old \<Rightarrow> r old) (rows df)\<rparr>"

definition statement_probe ::
  "(ticker \<Rightarrow> yf_table option outcome) \<Rightarrow> ticker \<Rightarrow> api \<Rightarrow> yf_table probe" where
  "statement_probe attr t a =
    (if a = yfinance then
       (case attr t of
          Raise \<Rightarrow> Threw
        | Value None \<Rightarrow> NoData
        | Value (Some tb) \<Rightarrow> if \<not> yf_empty tb then Answer tb else NoData)
     else NoBranch)"

definition statement_return ::
  "(string \<times> string) list \<Rightarrow> ticker \<Rightarrow> yf_table \<Rightarrow> frame option outcome" where
  "statement_return m t tb =
    (case T_reset_index tb of
       Raise \<Rightarrow> Raise
     | Value df \<Rightarrow> Value (Some (rename (set_column df ''symbol'' (Text t)) m)))"

definition extract_balance_sheet ::
  "extractor \<Rightarrow> ticker \<Rightarrow> bool \<Rightarrow> frame option \<times> api list" where
  "extract_balance_sheet ex t quarterly =
     walk (\<lambda>a. attempt
             (statement_probe
                (if quarterly then yf_quarterly_balance_sheet (yf ex)
                 else yf_balance_sheet (yf ex)) t a)
             (statement_return [(''index'', ''asOfDate''), (''asOfDate'', ''asOfDate'')] t))
       (api_priority ''balance_sheet'')"

definition extract_income_statement ::
  "extractor \<Rightarrow> ticker \<Rightarrow> bool \<Rightarrow> frame option \<times> api list" where
  "extract_income_statement ex t quarterly =
     walk (\<lambda>a. attempt
             (statement_probe
                (if quarterly then yf_quarterly_financials (yf ex)
                 else yf_financials (yf ex)) t a)
             (statement_return [(''index'', ''asOfDate'')] t))
       (api_priority ''income_statement'')"

definition extract_cash_flow ::
  "extractor \<Rightarrow> ticker \<Rightarrow> bool \<Rightarrow> frame option \<times> api list" where
  "extract_cash_flow ex t quarterly =
     walk (\<lambda>a. attempt
             (statement_probe
                (if quarterly then yf_quarterly_cashflow (yf ex)
                 else yf_cashflow (yf ex)) t a)
             (statement_return [(''index'', ''asOfDate'')] t))
       (api_priority ''cash_flow'')"

definition institution_ownership_probe :: "extractor \<Rightarrow> ticker \<Rightarrow> api \<Rightarrow> frame probe" where
  "institution_ownership_probe ex t a =
    (if a = yfinance then
       (case yf_institutional_holders (yf ex) t of
          Raise \<Rightarrow> Threw
        | Value None \<Rightarrow> NoData
        | Value (Some df) \<Rightarrow> if \<not> df_empty df then Answer df else NoData)
     else NoBranch)"

definition institution_ownership_return :: "ticker \<Rightarrow> frame \<Rightarrow> frame option outcome" where
  "institution_ownership_return t df =
     Value (Some (rename (set_column df ''symbol'' (Text t))
       [(''Holder'', ''organization''), (''% Out'', ''pctHeld''),
        (''Shares'', ''position''), (''Value'', ''value'')]))"

definition extract_institution_ownership ::
  "extractor \<Rightarrow> ticker \<Rightarrow> frame option \<times> api list" where
  "extract_institution_ownership ex t =
     walk (\<lambda>a. attempt (institution_ownership_probe ex t a) (institution_ownership_return t))
       (api_priority ''institution_ownership'')"

definition executive_ownership_probe :: "extractor \<Rightarrow> ticker \<Rightarrow> api \<Rightarrow> pydict probe" where
  "executive_ownership_probe ex t a =
    (if a = finnhub \<and> finnhub_client ex \<noteq> None then
       ask_client (finnhub_get_insider_transactions (the (finnhub_client ex)) t)
     else NoBranch)"

definition extract_executive_ownership ::
  "extractor \<Rightarrow> ticker \<Rightarrow> frame option \<times> api list" where
  "extract_executive_ownership ex t =
     walk (\<lambda>a. attempt (executive_ownership_probe ex t a) (\<lambda>d. format_finnhub_insider d t))
       (api_priority ''executive_ownership'')"

subsection \<open>Announcement prices\<close>

text \<open>
  \<open>extract_announcement_price\<close> does not read the priority table: it asks yfinance
  inside one \<open>try\<close> whose handler returns \<open>None\<close>. A date contributes a row when its
  history is not empty and both prices exist.
\<close>

fun announcement_prices ::
  "yf_module \<Rightarrow> ticker \<Rightarrow> val list \<Rightarrow> (string \<Rightarrow> val) list outcome" where
  "announcement_prices y t [] = Value []"
| "announcement_prices y t (d # ds) =
    (case yf_download y t d of
       Raise \<Rightarrow> Raise
     | Value h \<Rightarrow>
        (case announcement_prices y t ds of
           Raise \<Rightarrow> Raise
         | Value rest \<Rightarrow>
            if hist_empty h then Value rest
            else if close_before h \<noteq> Null \<and> open_after h \<noteq> Null then
              Value ((\<lambda>c. if c = ''symbol'' then Text t
                          else if c = ''announcement_date'' then d
                          else if c = ''announcement_type'' then Text ''Earnings''
                          else if c = ''price_before'' then close_before h
                          else if c = ''price_after'' then open_after h
                          else if c = ''change_percent''
                            then yf_change_percent y (open_after h) (close_before h)
                          else Null) # rest)
            else Value rest))"

definition announcement_price_probe ::
  "extractor \<Rightarrow> ticker \<Rightarrow> api \<Rightarrow> (string \<Rightarrow> val) list probe" where
  "announcement_price_probe ex t a =
    (if a = yfinance then
       (case yf_earnings_dates (yf ex) t of
          Raise \<Rightarrow> Threw
        | Value None \<Rightarrow> NoData
        | Value (Some dates) \<Rightarrow>
            if dates = [] then NoData
            else (case announcement_prices (yf ex) t dates of
                    Raise \<Rightarrow> Threw
                  | Value rs \<Rightarrow> if rs = [] then NoData else Answer rs))
     else NoBranch)"

definition extract_announcement_price ::
  "extractor \<Rightarrow> ticker \<Rightarrow> frame option \<times> api list" where
  "extract_announcement_price ex t =
    (case announcement_price_probe ex t yfinance of
       Answer rs \<Rightarrow>
         (Some \<lparr>columns = [''symbol'', ''announcement_date'', ''announcement_type'',
                            ''price_before'', ''price_after'', ''change_percent''],
                 rows = rs\<rparr>, [yfinance])
     | _ \<Rightarrow> (None, [yfinance]))"

subsection \<open>All categories of one ticker\<close>

datatype extracted = Dict pydict | Frame frame

definition data_types :: "string list" where
  "data_types =
    [''price'', ''org_overview'', ''calendar_events'', ''balance_sheet'',
     ''income_statement'', ''cash_flow'', ''valuation_measures'',
     ''institution_ownership'', ''executive_ownership'', ''announcement_price'']"

definition extract_one ::
  "extractor \<Rightarrow> ticker \<Rightarrow> bool \<Rightarrow> string \<Rightarrow> extracted option \<times> api list" where
  \<comment> \<open>The \<open>if\<close>/\<open>elif\<close> chain in the body of the loop of \<open>extract_all_data\<close>.\<close>
  "extract_one ex t quarterly data_type =
    (if data_type = ''price'' then apfst (map_option Dict) (extract_price_data ex t)
     else if data_type = ''org_overview'' then
       apfst (map_option Dict) (extract_org_overview ex t)
     else if data_type = ''calendar_events'' then
       apfst (map_option Dict) (extract_calendar_events ex t)
     else if data_type = ''balance_sheet'' then
       apfst (map_option Frame) (extract_balance_sheet ex t quarterly)
     else if data_type = ''income_statement'' then
       apfst (map_option Frame) (extract_income_statement ex t quarterly)
     else if data_type = ''cash_flow'' then
       apfst (map_option Frame) (extract_cash_flow ex t quarterly)
     else if data_type = ''valuation_measures'' then
       apfst (map_option Dict) (extract_valuation_measures ex t)
     else if data_type = ''institution_ownership'' then
       apfst (map_option Frame) (extract_institution_ownership ex t)
     else if data_type = ''executive_ownership'' then
       apfst (map_option Frame) (extract_executive_ownership ex t)
     else if data_type = ''announcement_price'' then
       apfst (map_option Frame) (extract_announcement_price ex t)
     else (None, []))"

definition extract_all_data ::
  "extractor \<Rightarrow> ticker \<Rightarrow> bool \<Rightarrow> (string \<times> extracted option) list" where
  "extract_all_data ex t quarterly =
     map (\<lambda>data_type. (data_type, fst (extract_one ex t quarterly data_type))) data_types"

text \<open>What each provider of a category answers, with the payload forgotten.\<close>

definition provider_answer ::
  "extractor \<Rightarrow> ticker \<Rightarrow> bool \<Rightarrow> string \<Rightarrow> api \<Rightarrow> unit probe" where
  "provider_answer ex t quarterly data_type a =
    (if data_type = ''price'' then forget (price_probe ex t a)
     else if data_type = ''org_overview'' then forget (org_overview_probe ex t a)
     else if data_type = ''calendar_events'' then forget (calendar_events_probe ex t a)
     else if data_type = ''balance_sheet'' then
       forget (statement_probe (if quarterly then yf_quarterly_balance_sheet (yf ex)
                                else yf_balance_sheet (yf ex)) t a)
     else if data_type = ''income_statement'' then
       forget (statement_probe (if quarterly then yf_quarterly_financials (yf ex)
                                else yf_financials (yf ex)) t a)
     else if data_type = ''cash_flow'' then
       forget (statement_probe (if quarterly then yf_quarterly_cashflow (yf ex)
                                else yf_cashflow (yf ex)) t a)
     else if data_type = ''valuation_measures'' then forget (valuation_measures_probe ex t a)
     else if data_type = ''institution_ownership'' then
       forget (institution_ownership_probe ex t a)
     else if data_type = ''executive_ownership'' then
       forget (executive_ownership_probe ex t a)
     else if data_type = ''announcement_price'' then
       forget (announcement_price_probe ex t a)
     else NoBranch)"

section \<open>The database\<close>

text \<open>
  The inserter talks to PostgreSQL through psycopg2. A table is its columns with their
  defaults, its unique indexes (a primary key is one), the next value of its \<open>SERIAL\<close>
  sequence and its rows. Identifiers written without quotes are folded to lower case by
  the server, in DDL and in statements alike, so the catalogue holds folded names.
\<close>

datatype coldef = Plain | Default val | Serial | Timestamp

record table =
  tcolumns :: "(string \<times> coldef) list"
  unique_indexes :: "string list list"
  serial :: int
  trows :: "(string \<Rightarrow> val) list"

type_synonym database = "string \<rightharpoonup> table"

definition to_lower :: "char \<Rightarrow> char" where
  "to_lower c =
    (case map_of (zip ''ABCDEFGHIJKLMNOPQRSTUVWXYZ'' ''abcdefghijklmnopqrstuvwxyz'') c of
       None \<Rightarrow> c | Some l \<Rightarrow> l)"

definition fold_ident :: "string \<Rightarrow> string" where
  "fold_ident s = map to_lower s"

definition col_names :: "table \<Rightarrow> string list" where
  "col_names tb = map fst (tcolumns tb)"

text \<open>
  The statements the inserter issues. \<open>Upsert t cols vals key upd\<close> is
  \<^verbatim>\<open>INSERT INTO t (cols) VALUES vals ON CONFLICT (key) DO UPDATE SET c = EXCLUDED.c\<close>
  (for \<open>c\<close> in \<open>upd\<close>) \<^verbatim>\<open>, created_at = CURRENT_TIMESTAMP\<close>;
  \<open>InsertIgnore t cols vals key\<close> ends in \<^verbatim>\<open>ON CONFLICT (key) DO NOTHING\<close>;
  \<open>DeleteSymbol t v\<close> is \<^verbatim>\<open>DELETE FROM t WHERE symbol = v\<close>.
\<close>

datatype statement =
    Upsert string "string list" "val list list" "string list" "string list"
  | InsertIgnore string "string list" "val list list" "string list"
  | DeleteSymbol string val

datatype db_error =
    SyntaxError | UndefinedTable | UndefinedColumn | DuplicateColumn
  | NoMatchingConstraint | CardinalityViolation | UniqueViolation



definition conflict_target :: "statement \<Rightarrow> string list" where
  "conflict_target st =
    (case st of Upsert t cols vals key upd \<Rightarrow> key
     | InsertIgnore t cols vals key \<Rightarrow> key
     | DeleteSymbol t v \<Rightarrow> [])"

text \<open>
  What the server checks before it touches a row. The column list, the conflict target
  and the assignment targets must name columns of the table, without repetition in the
  column list and among the assignments; and the conflict target must be the column set
  of some unique index, or the statement is rejected (``there is no unique or exclusion
  constraint matching the ON CONFLICT specification''). Types, lengths and the
  adaptation of Python values are not modelled.
\<close>

definition check_insert :: "table \<Rightarrow> string list \<Rightarrow> string list \<Rightarrow> db_error option" where
  "check_insert tb cols key =
    (if \<not> list_all (\<lambda>c. c \<in> set (col_names tb)) cols then Some UndefinedColumn
     else if \<not> distinct cols then Some DuplicateColumn
     else if \<not> list_all (\<lambda>c. c \<in> set (col_names tb)) key then Some UndefinedColumn
     else if \<not> list_ex (\<lambda>u. set u = set key) (unique_indexes tb)
       then Some NoMatchingConstraint
     else None)"

definition check_set :: "table \<Rightarrow> string list \<Rightarrow> db_error option" where
  "check_set tb targets =
    (if \<not> list_all (\<lambda>c. c \<in> set (col_names tb)) targets then Some UndefinedColumn
     else if \<not> distinct targets then Some DuplicateColumn
     else None)"

text \<open>
  The row an \<open>INSERT\<close> proposes: the given values under the listed columns, the column
  default elsewhere. Two rows collide on an index when they agree on all its columns
  and none of these values is NULL (NULLs are distinct in a unique index).
\<close>

definition proposed :: "table \<Rightarrow> val \<Rightarrow> string list \<Rightarrow> val list \<Rightarrow> string \<Rightarrow> val" where
  "proposed tb ts cols vs c =
    (case map_of (zip cols vs) c of
       Some v \<Rightarrow> v
     | None \<Rightarrow>
        (case map_of (tcolumns tb) c of
           Some (Default v) \<Rightarrow> v
         | Some Serial \<Rightarrow> Num (serial tb)
         | Some Timestamp \<Rightarrow> ts
         | _ \<Rightarrow> Null))"

definition same_key :: "string list \<Rightarrow> (string \<Rightarrow> val) \<Rightarrow> (string \<Rightarrow> val) \<Rightarrow> bool" where
  "same_key key new old = list_all (\<lambda>k. new k \<noteq> Null \<and> old k = new k) key"

definition breaks_unique :: "string list list \<Rightarrow> (string \<Rightarrow> val) list \<Rightarrow> (string \<Rightarrow> val) \<Rightarrow> bool" where
  "breaks_unique idx rs new = list_ex (\<lambda>u. list_ex (same_key u new) rs) idx"

fun position :: "('a \<Rightarrow> bool) \<Rightarrow> 'a list \<Rightarrow> nat option" where
  "position P [] = None"
| "position P (x # xs) = (if P x then Some 0 else map_option Suc (position P xs))"

definition bump_serial :: "table \<Rightarrow> string list \<Rightarrow> table" where
  \<comment> \<open>A defaulted \<open>SERIAL\<close> column draws from the sequence for every proposed row.\<close>
  "bump_serial tb cols =
    (if list_ex (\<lambda>(c, d). d = Serial \<and> c \<notin> set cols) (tcolumns tb)
     then tb\<lparr>serial := serial tb + 1\<rparr> else tb)"

text \<open>
  \<open>ON CONFLICT (key) DO UPDATE\<close>, row by row: a proposed row that collides with a
  stored row on the arbiter index updates that row, unless the same command has already
  inserted or updated it (``command cannot affect row a second time''); otherwise the
  row is inserted, unless it collides on some other unique index. \<open>touched\<close> holds the
  positions of the rows this command has written.
\<close>

fun upsert_rows ::
  "table \<Rightarrow> val \<Rightarrow> string list \<Rightarrow> string list \<Rightarrow> string list \<Rightarrow> val list list \<Rightarrow> nat list
   \<Rightarrow> db_error + table" where
  "upsert_rows tb ts cols key upd [] touched = Inr tb"
| "upsert_rows tb ts cols key upd (vs # rest) touched =
    (let new = proposed tb ts cols vs; tb1 = bump_serial tb cols
     in case position (same_key key new) (trows tb) of
          Some i \<Rightarrow>
            if i \<in> set touched then Inl CardinalityViolation
            else
              (let old = trows tb ! i;
                   row = (\<lambda>c. if c \<in> set upd then new c
                               else if c = ''created_at'' then ts else old c)
               in if breaks_unique (unique_indexes tb)
                       (take i (trows tb) @ drop (Suc i) (trows tb)) row
                  then Inl UniqueViolation
                  else upsert_rows (tb1\<lparr>trows := (trows tb)[i := row]\<rparr>) ts cols key upd rest
                         (i # touched))
        | None \<Rightarrow>
            if breaks_unique (unique_indexes tb) (trows tb) new then Inl UniqueViolation
            else upsert_rows (tb1\<lparr>trows := trows tb @ [new]\<rparr>) ts cols key upd rest
                   (length (trows tb) # touched))"

fun insert_ignore_rows ::
  "table \<Rightarrow> val \<Rightarrow> string list \<Rightarrow> string list \<Rightarrow> val list list \<Rightarrow> db_error + table" where
  "insert_ignore_rows tb ts cols key [] = Inr tb"
| "insert_ignore_rows tb ts cols key (vs # rest) =
    (let new = proposed tb ts cols vs; tb1 = bump_serial tb cols
     in if list_ex (same_key key new) (trows tb)
        then insert_ignore_rows tb1 ts cols key rest
        else if breaks_unique (unique_indexes tb) (trows tb) new then Inl UniqueViolation
        else insert_ignore_rows (tb1\<lparr>trows := trows tb @ [new]\<rparr>) ts cols key rest)"

definition execute :: "statement \<Rightarrow> val \<Rightarrow> database \<Rightarrow> db_error + database" where
  "execute st ts d =
    (case st of
       Upsert t cols vals key upd \<Rightarrow>
         if cols = [] \<or> vals = [] \<or> key = [] \<or> upd = [] then Inl SyntaxError
         else if list_ex (\<lambda>vs. length vs \<noteq> length cols) vals then Inl SyntaxError
         else
           (case d (fold_ident t) of
              None \<Rightarrow> Inl UndefinedTable
            | Some tb \<Rightarrow>
               (case check_insert tb (map fold_ident cols) (map fold_ident key) of
                  Some e \<Rightarrow> Inl e
                | None \<Rightarrow>
                   (case check_set tb (map fold_ident upd @ [''created_at'']) of
                      Some e \<Rightarrow> Inl e
                    | None \<Rightarrow>
                       (case upsert_rows tb ts (map fold_ident cols) (map fold_ident key)
                               (map fold_ident upd) vals [] of
                          Inl e \<Rightarrow> Inl e
                        | Inr tb' \<Rightarrow> Inr (d(fold_ident t \<mapsto> tb'))))))
     | InsertIgnore t cols vals key \<Rightarrow>
         if cols = [] \<or> vals = [] \<or> key = [] then Inl SyntaxError
         else if list_ex (\<lambda>vs. length vs \<noteq> length cols) vals then Inl SyntaxError
         else
           (case d (fold_ident t) of
              None \<Rightarrow> Inl UndefinedTable
            | Some tb \<Rightarrow>
               (case check_insert tb (map fold_ident cols) (map fold_ident key) of
                  Some e \<Rightarrow> Inl e
                | None \<Rightarrow>
                   (case insert_ignore_rows tb ts (map fold_ident cols) (map fold_ident key)
                            vals of
                      Inl e \<Rightarrow> Inl e
                    | Inr tb' \<Rightarrow> Inr (d(fold_ident t \<mapsto> tb')))))
     | DeleteSymbol t v \<Rightarrow>
         (case d (fold_ident t) of
            None \<Rightarrow> Inl UndefinedTable
          | Some tb \<Rightarrow>
             if ''symbol'' \<notin> set (col_names tb) then Inl UndefinedColumn
             else Inr (d(fold_ident t \<mapsto> tb\<lparr>trows := filter (\<lambda>r. r ''symbol'' \<noteq> v) (trows tb)\<rparr>))))"

fun execute_all :: "statement list \<Rightarrow> val \<Rightarrow> database \<Rightarrow> db_error + database" where
  "execute_all [] ts d = Inr d"
| "execute_all (st # sts) ts d =
    (case execute st ts d of Inl e \<Rightarrow> Inl e | Inr d' \<Rightarrow> execute_all sts ts d')"

section \<open>The inserter (populatepostgres.py)\<close>

text \<open>
  The world the inserter acts on: the tables, the outcomes of the coming
  \<open>psycopg2.connect\<close> calls (\<open>True\<close> connects; an exhausted list connects), the values of
  \<open>CURRENT_TIMESTAMP\<close> and of \<open>datetime.now().date()\<close>, and the log. Log messages are
  recorded without the text of the exception and without row counts.
\<close>

datatype level = INFO | WARNING | ERROR

datatype exn = OperationalError

record world =
  tables :: database
  connect_oracle :: "bool list"
  clock :: val
  today :: val
  logged :: "(level \<times> string) list"

definition logging :: "level \<Rightarrow> string \<Rightarrow> world \<Rightarrow> world" where
  "logging lv msg w = w\<lparr>logged := logged w @ [(lv, msg)]\<rparr>"

definition get_db_connection :: "world \<Rightarrow> bool \<times> world" where
  \<comment> \<open>\<open>False\<close>: \<open>psycopg2.connect\<close> raised; the error is logged and raised again.\<close>
  "get_db_connection w =
    (case connect_oracle w of
       [] \<Rightarrow> (True, w)
     | ok # rest \<Rightarrow>
        if ok then (True, w\<lparr>connect_oracle := rest\<rparr>)
        else (False, logging ERROR ''Database connection failed'' (w\<lparr>connect_oracle := rest\<rparr>)))"

definition get_table_columns :: "database \<Rightarrow> string \<Rightarrow> string list" where
  \<comment> \<open>The catalogue query compares \<open>table_name\<close> as a string literal with the stored name.\<close>
  "get_table_columns d table_name =
    (case d table_name of None \<Rightarrow> [] | Some tb \<Rightarrow> col_names tb)"

definition transact :: "statement list \<Rightarrow> world \<Rightarrow> db_error option \<times> world" where
  \<comment> \<open>Statements on one cursor, then \<open>commit\<close>; an error leads to \<open>rollback\<close>.\<close>
  "transact sts w =
    (case execute_all sts (clock w) (tables w) of
       Inl e \<Rightarrow> (Some e, w)
     | Inr d \<Rightarrow> (None, w\<lparr>tables := d\<rparr>))"

definition bind :: "pydict \<Rightarrow> string list \<Rightarrow> val list option" where
  \<comment> \<open>Named parameters \<open>%(k)s\<close>: a key missing from the dict raises \<open>KeyError\<close>.\<close>
  "bind d ks = (if list_all (\<lambda>k. map_of d k \<noteq> None) ks then Some (map (dget d) ks) else None)"

subsection \<open>Single-record categories\<close>

definition insert_record ::
  "string \<Rightarrow> string \<Rightarrow> ticker \<Rightarrow> pydict \<Rightarrow> string list \<Rightarrow> (val list \<Rightarrow> statement)
   \<Rightarrow> world \<Rightarrow> (exn + bool) \<times> world" where
  \<comment> \<open>The shared tail of the single-record methods: connect outside the \<open>try\<close>, then
      bind, execute and commit inside it. \<open>verb\<close> and \<open>what\<close> make the log messages.\<close>
  "insert_record verb what t d params stmt w =
    (case get_db_connection w of
       (False, w1) \<Rightarrow> (Inl OperationalError, w1)
     | (True, w1) \<Rightarrow>
        (case bind d params of
           None \<Rightarrow> (Inr False, logging ERROR (''Error inserting '' @ what @ '' for '' @ t) w1)
         | Some vs \<Rightarrow>
            (case transact [stmt vs] w1 of
               (Some e, w2) \<Rightarrow>
                 (Inr False, logging ERROR (''Error inserting '' @ what @ '' for '' @ t) w2)
             | (None, w2) \<Rightarrow>
                 (Inr True, logging INFO (verb @ '' '' @ what @ '' for '' @ t) w2))))"

definition price_columns :: "string list" where
  "price_columns =
    [''symbol'', ''regularMarketPrice'', ''regularMarketChangePercent'', ''regularMarketChange'',
     ''regularMarketDayHigh'', ''regularMarketDayLow'', ''regularMarketVolume'',
     ''regularMarketPreviousClose'', ''regularMarketOpen'', ''exchangeName'', ''longName'',
     ''currency'', ''marketCap'']"

definition insert_price_data :: "ticker \<Rightarrow> pydict option \<Rightarrow> world \<Rightarrow> (exn + bool) \<times> world" where
  "insert_price_data t data w =
    (if \<not> truthy data then (Inr False, w)
     else insert_record ''Inserted'' ''price data'' t (the data) price_columns
            (\<lambda>vs. InsertIgnore ''price'' price_columns [vs] [''symbol'', ''regularMarketTime''])
            w)"







subsection \<open>The generic upsert\<close>

fun paginate :: "nat \<Rightarrow> 'a list \<Rightarrow> 'a list list" where
  \<comment> \<open>\<open>execute_values\<close> sends the rows in pages of \<open>page_size\<close>, one statement a page.\<close>
  "paginate n [] = []"
| "paginate n (x # xs) =
    (if n = 0 then [] else take n (x # xs) # paginate n (drop n (x # xs)))"

definition intersect_columns :: "frame \<Rightarrow> string list \<Rightarrow> string list" where
  \<comment> \<open>\<open>df_columns = [col for col in df.columns if col in table_columns]\<close>\<close>
  "intersect_columns df table_columns =
     filter (\<lambda>col. col \<in> set table_columns) (columns df)"

definition upsert_statements ::
  "frame \<Rightarrow> string list \<Rightarrow> string \<Rightarrow> string list \<Rightarrow> statement list" where
  "upsert_statements df table_columns table_name conflict_key =
    (let df_columns = intersect_columns df table_columns;
         vals = map (\<lambda>row. map row df_columns) (rows df);
         update_columns = filter (\<lambda>col. col \<notin> set conflict_key) df_columns
     in map (\<lambda>page. Upsert table_name df_columns page conflict_key update_columns)
          (paginate 100 vals))"

definition insert_dataframe_to_table ::
  "frame option \<Rightarrow> string \<Rightarrow> ticker \<Rightarrow> string list \<Rightarrow> world \<Rightarrow> (exn + bool) \<times> world" where
  "insert_dataframe_to_table df table_name t conflict_key w =
    (if df = None \<or> df_empty (the df) then
       (Inr False, logging WARNING (''No '' @ table_name @ '' data to insert for '' @ t) w)
     else
       (case get_db_connection w of
          (False, w1) \<Rightarrow> (Inl OperationalError, w1)
        | (True, w1) \<Rightarrow>
           (let table_columns = get_table_columns (tables w1) table_name
            in if intersect_columns (the df) table_columns = [] then
                 (Inr False,
                  logging WARNING
                    (''No matching columns for '' @ table_name @ '' table for '' @ t) w1)
               else
                 (case transact
                         (upsert_statements (the df) table_columns table_name conflict_key)
                         w1 of
                    (Some e, w2) \<Rightarrow>
                      (Inr False,
                       logging ERROR
                         (''Error inserting '' @ table_name @ '' data for '' @ t) w2)
                  | (None, w2) \<Rightarrow>
                      (Inr True,
                       logging INFO
                         (''Inserted/Updated rows into '' @ table_name @ '' for '' @ t)
                         w2)))))"


definition insert_balance_sheet ::
  "ticker \<Rightarrow> frame option \<Rightarrow> world \<Rightarrow> (exn + bool) \<times> world" where
  "insert_balance_sheet t df w =
     insert_dataframe_to_table df ''balance_sheet'' t [''symbol'', ''asOfDate''] w"



definition insert_institution_ownership ::
  "ticker \<Rightarrow> frame option \<Rightarrow> world \<Rightarrow> (exn + bool) \<times> world" where
  "insert_institution_ownership t df w =
    (case get_db_connection w of
       (False, w1) \<Rightarrow> (Inl OperationalError, w1)
     | (True, w1) \<Rightarrow>
        (case transact [DeleteSymbol ''institution_ownership'' (Text t)] w1 of
           (Some e, w2) \<Rightarrow>
             insert_dataframe_to_table df ''institution_ownership'' t
               [''symbol'', ''organization'']
               (logging ERROR (''Could not clear old institutional holders for '' @ t) w2)
         | (None, w2) \<Rightarrow>
             insert_dataframe_to_table df ''institution_ownership'' t
               [''symbol'', ''organization''] w2))"


subsection \<open>Quarterly prices\<close>



subsection \<open>All categories of one ticker\<close>







subsection \<open>Reachability of the database\<close>

definition connects :: "world \<Rightarrow> bool" where
  \<comment> \<open>The next \<open>psycopg2.connect\<close> succeeds.\<close>
  "connects w = (case connect_oracle w of [] \<Rightarrow> True | ok # rest \<Rightarrow> ok)"

definition always_connects :: "world \<Rightarrow> bool" where
  \<comment> \<open>Every coming \<open>psycopg2.connect\<close> succeeds.\<close>
  "always_connects w = list_all (\<lambda>ok. ok) (connect_oracle w)"

definition connected :: "world \<Rightarrow> world" where
  \<comment> \<open>The world after a successful \<open>get_db_connection\<close>.\<close>
  "connected w = w\<lparr>connect_oracle := tl (connect_oracle w)\<rparr>"

subsection \<open>Observing a run\<close>

definition twice :: "(world \<Rightarrow> 'r \<times> world) \<Rightarrow> world \<Rightarrow> 'r \<times> world" where
  \<comment> \<open>The same call a second time, on the world the first call left.\<close>
  "twice f w = f (snd (f w))"

definition row_count :: "world \<Rightarrow> string \<Rightarrow> nat" where
  "row_count w t = (case tables w t of None \<Rightarrow> 0 | Some tb \<Rightarrow> length (trows tb))"

definition stored :: "world \<Rightarrow> string \<Rightarrow> string list \<Rightarrow> val list list" where
  \<comment> \<open>\<open>SELECT cols FROM t\<close>\<close>
  "stored w t cols =
    (case tables w t of None \<Rightarrow> [] | Some tb \<Rightarrow> map (\<lambda>r. map r cols) (trows tb))"

section \<open>The schema (create\_sql\_tables.py)\<close>

text \<open>
  \<open>CREATE TABLE IF NOT EXISTS\<close>: a table is added only when its name is free. Every
  table of \<open>create_all_tables\<close> has \<open>id SERIAL PRIMARY KEY\<close> as its only constraint, so
  its only unique index is the one on \<open>id\<close>. Column types are not modelled.
\<close>

definition create_table :: "string \<Rightarrow> (string \<times> coldef) list \<Rightarrow> database \<Rightarrow> database" where
  "create_table name cols d =
    (if d (fold_ident name) \<noteq> None then d
     else d(fold_ident name \<mapsto>
            \<lparr>tcolumns = map (\<lambda>(c, df). (fold_ident c, df)) cols,
             unique_indexes = [[''id'']], serial = 1, trows = []\<rparr>))"

definition price_ddl :: "(string \<times> coldef) list" where
  "price_ddl =
    [(''id'', Serial), (''symbol'', Plain), (''regularMarketPrice'', Plain),
     (''regularMarketChangePercent'', Plain), (''regularMarketChange'', Plain),
     (''regularMarketTime'', Plain), (''regularMarketDayHigh'', Plain),
     (''regularMarketDayLow'', Plain), (''regularMarketVolume'', Plain),
     (''regularMarketPreviousClose'', Plain), (''regularMarketSource'', Plain),
     (''regularMarketOpen'', Plain), (''exchangeName'', Plain), (''marketState'', Plain),
     (''quoteType'', Plain), (''longName'', Plain), (''currency'', Plain),
     (''quoteSourceName'', Plain), (''currencySymbol'', Plain), (''marketCap'', Plain),
     (''created_at'', Timestamp)]"

definition quarterly_price_ddl :: "(string \<times> coldef) list" where
  "quarterly_price_ddl =
    [(''id'', Serial), (''symbol'', Plain), (''quarter'', Plain), (''year'', Plain),
     (''avg_price'', Plain), (''high_price'', Plain), (''low_price'', Plain),
     (''volume_avg'', Plain), (''created_at'', Timestamp)]"

definition announcement_price_ddl :: "(string \<times> coldef) list" where
  "announcement_price_ddl =
    [(''id'', Serial), (''symbol'', Plain), (''announcement_date'', Plain),
     (''announcement_type'', Plain), (''price_before'', Plain), (''price_after'', Plain),
     (''change_percent'', Plain), (''days_before'', Default (Num 1)),
     (''days_after'', Default (Num 1)), (''created_at'', Timestamp)]"

definition balance_sheet_ddl :: "(string \<times> coldef) list" where
  "balance_sheet_ddl =
    [(''id'', Serial), (''symbol'', Plain), (''asOfDate'', Plain),
     (''currencyCode'', Plain), (''AccountsPayable'', Plain),
     (''AccountsReceivable'', Plain), (''CashAndCashEquivalents'', Plain),
     (''CommonStockEquity'', Plain), (''CurrentAssets'', Plain),
     (''CurrentLiabilities'', Plain), (''Goodwill'', Plain), (''GrossPPE'', Plain),
     (''Inventory'', Plain), (''LongTermDebt'', Plain), (''NetDebt'', Plain),
     (''NetPPE'', Plain), (''NetTangibleAssets'', Plain), (''Receivables'', Plain),
     (''RetainedEarnings'', Plain), (''TotalAssets'', Plain),
     (''TotalEquityGrossMinorityInterest'', Plain), (''created_at'', Timestamp)]"

definition income_statement_ddl :: "(string \<times> coldef) list" where
  "income_statement_ddl =
    [(''id'', Serial), (''symbol'', Plain), (''asOfDate'', Plain),
     (''currencyCode'', Plain), (''TotalRevenue'', Plain), (''CostOfRevenue'', Plain),
     (''GrossProfit'', Plain), (''OperatingExpense'', Plain),
     (''OperatingIncome'', Plain), (''InterestExpense'', Plain),
     (''PretaxIncome'', Plain), (''TaxProvision'', Plain), (''NetIncome'', Plain),
     (''BasicEPS'', Plain), (''DilutedEPS'', Plain), (''EBIT'', Plain),
     (''EBITDA'', Plain), (''OperatingRevenue'', Plain),
     (''SellingGeneralAndAdministration'', Plain), (''ResearchAndDevelopment'', Plain),
     (''NetIncomeFromContinuingOperationNetMinorityInterest'', Plain),
     (''NetIncomeCommonStockholders'', Plain), (''created_at'', Timestamp)]"

definition cash_flow_ddl :: "(string \<times> coldef) list" where
  "cash_flow_ddl =
    [(''id'', Serial), (''symbol'', Plain), (''asOfDate'', Plain),
     (''currencyCode'', Plain), (''OperatingCashFlow'', Plain),
     (''InvestingCashFlow'', Plain), (''FinancingCashFlow'', Plain),
     (''NetIncome'', Plain), (''DepreciationAndAmortization'', Plain),
     (''ChangeInWorkingCapital'', Plain), (''CapitalExpenditure'', Plain),
     (''NetBusinessPurchaseAndSale'', Plain), (''NetInvestmentPurchaseAndSale'', Plain),
     (''NetPPEPurchaseAndSale'', Plain), (''IssuanceOfDebt'', Plain),
     (''RepaymentOfDebt'', Plain), (''CommonStockIssuance'', Plain),
     (''CommonStockPayments'', Plain), (''FreeCashFlow'', Plain),
     (''BeginningCashPosition'', Plain), (''EndCashPosition'', Plain),
     (''created_at'', Timestamp)]"

definition org_overview_ddl :: "(string \<times> coldef) list" where
  "org_overview_ddl =
    [(''id'', Serial), (''symbol'', Plain), (''address1'', Plain), (''city'', Plain),
     (''zip'', Plain), (''country'', Plain), (''phone'', Plain), (''website'', Plain),
     (''industry'', Plain), (''industryDisp'', Plain), (''sector'', Plain),
     (''longBusinessSummary'', Plain), (''fullTimeEmployees'', Plain),
     (''priceHint'', Plain), (''enterpriseValue'', Plain), (''bookValue'', Plain),
     (''priceToBook'', Plain), (''enterpriseToRevenue'', Plain), (''forwardPE'', Plain),
     (''enterpriseToEbitda'', Plain), (''fiftyTwoWeekChange'', Plain),
     (''profitMargins'', Plain), (''floatShares'', Plain), (''sharesOutstanding'', Plain),
     (''sharesShort'', Plain), (''shortRatio'', Plain),
     (''sharesShortPriorMonth'', Plain), (''heldPercentInstitutions'', Plain),
     (''heldPercentInsiders'', Plain), (''trailingEps'', Plain), (''forwardEps'', Plain),
     (''created_at'', Timestamp)]"

definition calendar_events_ddl :: "(string \<times> coldef) list" where
  "calendar_events_ddl =
    [(''id'', Serial), (''symbol'', Plain), (''earnings_date'', Plain),
     (''earnings_average'', Plain), (''earnings_low'', Plain), (''earnings_high'', Plain),
     (''revenue_average'', Plain), (''revenue_low'', Plain), (''revenue_high'', Plain),
     (''created_at'', Timestamp)]"

definition exec_payment_packages_ddl :: "(string \<times> coldef) list" where
  "exec_payment_packages_ddl =
    [(''id'', Serial), (''symbol'', Plain), (''name'', Plain), (''title'', Plain),
     (''totalPay'', Plain), (''exercisedValue'', Plain), (''unexercisedValue'', Plain),
     (''created_at'', Timestamp)]"

definition institution_ownership_ddl :: "(string \<times> coldef) list" where
  "institution_ownership_ddl =
    [(''id'', Serial), (''symbol'', Plain), (''organization'', Plain),
     (''pctHeld'', Plain), (''position'', Plain), (''value'', Plain),
     (''created_at'', Timestamp)]"

definition executive_ownership_ddl :: "(string \<times> coldef) list" where
  "executive_ownership_ddl =
    [(''id'', Serial), (''symbol'', Plain), (''name'', Plain), (''relation'', Plain),
     (''url'', Plain), (''transactionDescription'', Plain), (''latestTransDate'', Plain),
     (''positionDirect'', Plain), (''positionDirectDate'', Plain),
     (''created_at'', Timestamp)]"

definition valuation_measures_ddl :: "(string \<times> coldef) list" where
  "valuation_measures_ddl =
    [(''id'', Serial), (''symbol'', Plain), (''asOfDate'', Plain),
     (''PriceToEarningsRatio'', Plain), (''PriceToSalesRatio'', Plain),
     (''PriceToBookRatio'', Plain), (''EnterpiseToRevenue'', Plain),
     (''EnterpiseToEbitda'', Plain), (''created_at'', Timestamp)]"

definition create_all_tables :: "database \<Rightarrow> database" where
  "create_all_tables d =
     fold (\<lambda>(name, cols). create_table name cols)
       [(''price'', price_ddl), (''quarterly_price'', quarterly_price_ddl),
        (''announcement_price'', announcement_price_ddl),
        (''balance_sheet'', balance_sheet_ddl), (''income_statement'', income_statement_ddl),
        (''cash_flow'', cash_flow_ddl), (''org_overview'', org_overview_ddl),
        (''calendar_events'', calendar_events_ddl),
        (''exec_payment_packages'', exec_payment_packages_ddl),
        (''institution_ownership'', institution_ownership_ddl),
        (''executive_ownership'', executive_ownership_ddl),
        (''valuation_measures'', valuation_measures_ddl)] d"

definition schema :: database where
  \<comment> \<open>The database right after \<open>create_all_tables\<close> on an empty server.\<close>
  "schema = create_all_tables Map.empty"

text \<open>A table that is missing, or has no unique index on exactly the given columns.\<close>

definition lacks_index :: "database \<Rightarrow> string \<Rightarrow> string list \<Rightarrow> bool" where
  "lacks_index d t key =
    (case d (fold_ident t) of
       None \<Rightarrow> True
     | Some tb \<Rightarrow> \<not> list_ex (\<lambda>u. set u = set (map fold_ident key)) (unique_indexes tb))"


subsection \<open>Concrete provider configurations\<close>

text \<open>
  \<open>quote_only\<close>: yfinance is unreachable and only the Alpha Vantage client is
  configured; it answers every quote request with a two-field record.
  \<open>stale_info\<close>: yfinance answers with an \<open>info\<close> dictionary that carries no market
  price; no client is configured.
\<close>

definition unreachable_yf :: yf_module where
  "unreachable_yf =
    \<lparr>yf_info = (\<lambda>t. Raise), yf_calendar = (\<lambda>t. Raise), yf_balance_sheet = (\<lambda>t. Raise),
     yf_quarterly_balance_sheet = (\<lambda>t. Raise), yf_financials = (\<lambda>t. Raise),
     yf_quarterly_financials = (\<lambda>t. Raise), yf_cashflow = (\<lambda>t. Raise),
     yf_quarterly_cashflow = (\<lambda>t. Raise), yf_institutional_holders = (\<lambda>t. Raise),
     yf_earnings_dates = (\<lambda>t. Raise), yf_download = (\<lambda>t d. Raise),
     yf_change_percent = (\<lambda>a b. Null)\<rparr>"

definition quote_only :: extractor where
  "quote_only =
    \<lparr>yf = unreachable_yf, fmp_client = None, finnhub_client = None,
     alpha_vantage_client =
       Some \<lparr>av_get_quote = (\<lambda>t. Value (Some [(''symbol'', Text t), (''price'', Num 10)])),
             av_get_earnings_calendar = (\<lambda>t. Raise)\<rparr>\<rparr>"

definition stale_info :: extractor where
  "stale_info =
    \<lparr>yf = unreachable_yf\<lparr>yf_info := (\<lambda>t. Value [(''longName'', Text ''Acme Corp'')])\<rparr>,
     fmp_client = None, finnhub_client = None, alpha_vantage_client = None\<rparr>"

subsection \<open>Concrete databases and records\<close>

text \<open>
  \<open>fresh\<close>: the database right after \<open>create_all_tables\<close>, reachable, with nothing
  logged. \<open>acme_sheet\<close>: a one-period balance sheet as \<open>extract_balance_sheet\<close> shapes
  it. \<open>acme_quote\<close>: a price record as \<open>extract_price_data\<close> builds it.
\<close>

definition fresh :: world where
  "fresh =
    \<lparr>tables = schema, connect_oracle = [],
     clock = Text ''2026-01-05 10:00:00'', today = Text ''2026-01-05'', logged = []\<rparr>"

definition acme_sheet :: frame where
  "acme_sheet =
    \<lparr>columns = [''asOfDate'', ''TotalAssets'', ''symbol''],
     rows = [(\<lambda>c. if c = ''asOfDate'' then Text ''2024-12-31''
                   else if c = ''TotalAssets'' then Num 5000
                   else if c = ''symbol'' then Text ''ACME'' else Null)]\<rparr>"

definition acme_quote :: pydict where
  "acme_quote =
    [(''symbol'', Text ''ACME''), (''regularMarketPrice'', Num 10),
     (''regularMarketChangePercent'', Num 1), (''regularMarketChange'', Num 1),
     (''regularMarketDayHigh'', Num 11), (''regularMarketDayLow'', Num 9),
     (''regularMarketVolume'', Num 1000), (''regularMarketPreviousClose'', Num 9),
     (''regularMarketOpen'', Num 9), (''exchangeName'', Text ''NMS''),
     (''longName'', Text ''Acme Corp''), (''currency'', Text ''USD''),
     (''marketCap'', Num 100000)]"

text \<open>
  \<open>add_unique_index\<close> is \<open>CREATE UNIQUE INDEX ON t (cols)\<close> and \<open>put_rows\<close> loads rows
  into a table; neither is part of the repository, they build the databases below.
  \<open>keyed\<close> is \<open>fresh\<close> with the unique indexes that the \<open>ON CONFLICT\<close> clauses of
  \<open>insert_balance_sheet\<close> and \<open>insert_price_data\<close> name. \<open>acme_undated\<close> is a frame
  without a date column. \<open>holders\<close> stores two institutional holders, one of ACME.
  \<open>flaky\<close> loses the database at the third connection attempt.
\<close>

definition add_unique_index :: "string \<Rightarrow> string list \<Rightarrow> database \<Rightarrow> database" where
  "add_unique_index t cols d =
    (case d (fold_ident t) of
       None \<Rightarrow> d
     | Some tb \<Rightarrow>
        d(fold_ident t \<mapsto> tb\<lparr>unique_indexes := unique_indexes tb @ [map fold_ident cols]\<rparr>))"

definition put_rows :: "string \<Rightarrow> (string \<Rightarrow> val) list \<Rightarrow> database \<Rightarrow> database" where
  "put_rows t rs d =
    (case d t of None \<Rightarrow> d | Some tb \<Rightarrow> d(t \<mapsto> tb\<lparr>trows := trows tb @ rs\<rparr>))"

definition keyed :: world where
  "keyed =
    fresh\<lparr>tables :=
      add_unique_index ''price'' [''symbol'', ''regularMarketTime'']
        (add_unique_index ''balance_sheet'' [''symbol'', ''asOfDate''] schema)\<rparr>"

definition acme_undated :: frame where
  "acme_undated =
    \<lparr>columns = [''symbol'', ''totalassets''],
     rows = [(\<lambda>c. if c = ''symbol'' then Text ''ACME''
                   else if c = ''totalassets'' then Num 5000 else Null)]\<rparr>"

definition holders :: world where
  "holders =
    fresh\<lparr>tables :=
      put_rows ''institution_ownership''
        [(\<lambda>c. if c = ''id'' then Num 1 else if c = ''symbol'' then Text ''ACME''
               else if c = ''organization'' then Text ''Vanguard'' else Null),
         (\<lambda>c. if c = ''id'' then Num 2 else if c = ''symbol'' then Text ''INIT''
               else if c = ''organization'' then Text ''Vanguard'' else Null)]
        schema\<rparr>"



definition acme_raw :: frame where
  \<comment> \<open>Line items under the labels yfinance gives them; none is a column of the schema.\<close>
  "acme_raw =
    \<lparr>columns = [''Total Assets'', ''Net Debt''],
     rows = [(\<lambda>c. if c = ''Total Assets'' then Num 5000
                   else if c = ''Net Debt'' then Num 70 else Null)]\<rparr>"

definition acme_dated :: frame where
  \<comment> \<open>One period under the catalogue's column names, with one label the schema lacks.\<close>
  "acme_dated =
    \<lparr>columns = [''symbol'', ''Net Debt'', ''asofdate'', ''totalassets''],
     rows = [(\<lambda>c. if c = ''symbol'' then Text ''ACME''
                   else if c = ''Net Debt'' then Num 70
                   else if c = ''asofdate'' then Text ''2024-12-31''
                   else if c = ''totalassets'' then Num 5000 else Null)]\<rparr>"

definition unreachable :: world where
  "unreachable = fresh\<lparr>connect_oracle := [False]\<rparr>"

section \<open>Properties of the extractor\<close>

subsection \<open>The fallback loop\<close>

lemma walk_no_answer:
  "list_all (\<lambda>a. \<not> answered (p a)) as \<Longrightarrow>
   fst (walk (\<lambda>a. attempt (p a) (b a)) as) = None"
  by (induction as) (auto simp: attempt_def answered_def split: probe.splits outcome.splits)

text \<open>
  The loop stops at the first provider with a non-empty answer whose \<open>return\<close> operand
  evaluates: the providers called are those with a branch up to and including that one,
  and nothing behind it in the priority list is called.
\<close>

lemma walk_first_answer:
  "list_all (\<lambda>x. \<not> answered (p x)) pre \<Longrightarrow> p a = Answer d \<Longrightarrow> b a d = Value r \<Longrightarrow>
   walk (\<lambda>a. attempt (p a) (b a)) (pre @ a # post) =
     (r, filter (\<lambda>x. was_called (p x)) pre @ [a])"
  by (induction pre)
     (auto simp: attempt_def answered_def was_called_def split: probe.splits outcome.splits)

lemma walk_calls_in_order: "subseq (snd (walk body as)) as"
  by (induction as) (auto split: step.splits)

lemma answered_forget [simp]: "answered (forget p) = answered p"
  by (simp add: answered_def forget_def split: probe.splits)

lemma announcement_none:
  "\<not> answered (announcement_price_probe ex t yfinance) \<Longrightarrow>
   fst (extract_announcement_price ex t) = None"
  by (simp add: extract_announcement_price_def answered_def split: probe.splits)

lemma extract_one_none:
  "c \<in> set data_types \<Longrightarrow>
   list_all (\<lambda>a. \<not> answered (provider_answer ex t q c a)) (api_priority c) \<Longrightarrow>
   fst (extract_one ex t q c) = None"
  unfolding data_types_def
  apply (simp only: set_simps insert_iff empty_iff)
  apply (elim disjE)
  apply (simp_all add: extract_one_def provider_answer_def walk_no_answer
      extract_price_data_def extract_org_overview_def extract_calendar_events_def
      extract_balance_sheet_def extract_income_statement_def extract_cash_flow_def
      extract_valuation_measures_def extract_institution_ownership_def
      extract_executive_ownership_def)
  apply (simp add: api_priority_def announcement_none)
  done

lemma extract_all_keys: "map fst (extract_all_data ex t q) = data_types"
  by (simp add: extract_all_data_def comp_def)

lemma extract_all_entry:
  "c \<in> set data_types \<Longrightarrow>
   map_of (extract_all_data ex t q) c = Some (fst (extract_one ex t q c))"
  by (simp add: extract_all_data_def map_of_map_restrict)

text \<open>
  C1. The specification: extraction calls the providers in list order and returns the first
  non-empty successful result at once, calling nothing after it. The order and the early
  exit hold (\<open>walk_calls_in_order\<close>, \<open>walk_first_answer\<close>), but the value returned for a
  fallback provider is not its result. With yfinance failing and Alpha Vantage answering
  the quote request for ACME with a non-empty record, \<open>extract_price_data\<close> calls exactly
  these two providers and returns \<open>None\<close>: the \<open>return\<close> operand is
  \<open>_format_alpha_vantage_price\<close>, a stub whose body is \<open>pass\<close>.
\<close>

theorem extract_price_data_loses_fallback_answer:
  "price_probe quote_only ''ACME'' alpha_vantage =
     Answer [(''symbol'', Text ''ACME''), (''price'', Num 10)] \<and>
   extract_price_data quote_only ''ACME'' = (None, [yfinance, alpha_vantage])"
  by (simp add: extract_price_data_def quote_only_def unreachable_yf_def api_priority_def
      attempt_def price_probe_def ask_client_def truthy_def price_return_def
      format_alpha_vantage_price_def)

text \<open>
  C2. For every data type of \<open>extract_all_data\<close> and every ticker: when no provider of
  the data type's priority list gives a non-empty answer (each one raises, answers empty
  or has no branch), the entry of that data type is \<open>None\<close>; exceptions are values of the
  model and none leaves an \<open>extract_*\<close> method. Whatever the providers do, the result has
  exactly one entry per data type, in the order of \<open>data_types\<close>.
\<close>

theorem extract_all_data_isolates_failures:
  "map fst (extract_all_data ex t q) = data_types \<and>
   (\<forall>c \<in> set data_types.
      list_all (\<lambda>a. \<not> answered (provider_answer ex t q c a)) (api_priority c) \<longrightarrow>
      map_of (extract_all_data ex t q) c = Some None)"
  by (simp add: extract_all_keys extract_all_entry extract_one_none)

theorem extract_all_data_isolates_failures_witness:
  "''price'' \<in> set data_types \<and>
   list_all (\<lambda>a. \<not> answered (provider_answer stale_info ''ACME'' False ''price'' a))
     (api_priority ''price'') \<and>
   map_of (extract_all_data stale_info ''ACME'' False) ''price'' = Some None \<and>
   map_of (extract_all_data stale_info ''ACME'' False) ''org_overview'' \<noteq> Some None"
proof -
  have h1: "''price'' \<in> set data_types"
    by (simp add: data_types_def)
  have h2: "list_all (\<lambda>a. \<not> answered (provider_answer stale_info ''ACME'' False ''price'' a))
              (api_priority ''price'')"
    by (simp add: provider_answer_def api_priority_def price_probe_def stale_info_def
        unreachable_yf_def dget_def answered_def forget_def)
  have h3: "map_of (extract_all_data stale_info ''ACME'' False) ''org_overview'' \<noteq> Some None"
    by (simp add: extract_all_data_def data_types_def extract_one_def extract_org_overview_def
        api_priority_def attempt_def org_overview_probe_def org_overview_return_def
        stale_info_def unreachable_yf_def)
  from extract_all_data_isolates_failures [of stale_info "''ACME''" False] h1 h2
  have "map_of (extract_all_data stale_info ''ACME'' False) ''price'' = Some None"
    by blast
  with h1 h2 h3 show ?thesis by blast
qed

section \<open>The created schema, table by table\<close>

text \<open>
  The catalogue after \<open>create_all_tables\<close>, computed once: the column names are the
  folded ones, and no table has a unique index besides its primary key.
\<close>

lemma price_folded:
  "map (\<lambda>(c, df). (fold_ident c, df)) price_ddl =
    [(''id'', Serial), (''symbol'', Plain), (''regularmarketprice'', Plain),
     (''regularmarketchangepercent'', Plain), (''regularmarketchange'', Plain),
     (''regularmarkettime'', Plain), (''regularmarketdayhigh'', Plain),
     (''regularmarketdaylow'', Plain), (''regularmarketvolume'', Plain),
     (''regularmarketpreviousclose'', Plain), (''regularmarketsource'', Plain),
     (''regularmarketopen'', Plain), (''exchangename'', Plain), (''marketstate'', Plain),
     (''quotetype'', Plain), (''longname'', Plain), (''currency'', Plain),
     (''quotesourcename'', Plain), (''currencysymbol'', Plain), (''marketcap'', Plain),
     (''created_at'', Timestamp)]"
  by code_simp

lemma quarterly_price_folded:
  "map (\<lambda>(c, df). (fold_ident c, df)) quarterly_price_ddl =
    [(''id'', Serial), (''symbol'', Plain), (''quarter'', Plain), (''year'', Plain),
     (''avg_price'', Plain), (''high_price'', Plain), (''low_price'', Plain),
     (''volume_avg'', Plain), (''created_at'', Timestamp)]"
  by code_simp

lemma announcement_price_folded:
  "map (\<lambda>(c, df). (fold_ident c, df)) announcement_price_ddl =
    [(''id'', Serial), (''symbol'', Plain), (''announcement_date'', Plain),
     (''announcement_type'', Plain), (''price_before'', Plain), (''price_after'', Plain),
     (''change_percent'', Plain), (''days_before'', Default (Num 1)),
     (''days_after'', Default (Num 1)), (''created_at'', Timestamp)]"
  by code_simp

lemma balance_sheet_folded:
  "map (\<lambda>(c, df). (fold_ident c, df)) balance_sheet_ddl =
    [(''id'', Serial), (''symbol'', Plain), (''asofdate'', Plain),
     (''currencycode'', Plain), (''accountspayable'', Plain),
     (''accountsreceivable'', Plain), (''cashandcashequivalents'', Plain),
     (''commonstockequity'', Plain), (''currentassets'', Plain),
     (''currentliabilities'', Plain), (''goodwill'', Plain), (''grossppe'', Plain),
     (''inventory'', Plain), (''longtermdebt'', Plain), (''netdebt'', Plain),
     (''netppe'', Plain), (''nettangibleassets'', Plain), (''receivables'', Plain),
     (''retainedearnings'', Plain), (''totalassets'', Plain),
     (''totalequitygrossminorityinterest'', Plain), (''created_at'', Timestamp)]"
  by code_simp

lemma income_statement_folded:
  "map (\<lambda>(c, df). (fold_ident c, df)) income_statement_ddl =
    [(''id'', Serial), (''symbol'', Plain), (''asofdate'', Plain),
     (''currencycode'', Plain), (''totalrevenue'', Plain), (''costofrevenue'', Plain),
     (''grossprofit'', Plain), (''operatingexpense'', Plain),
     (''operatingincome'', Plain), (''interestexpense'', Plain),
     (''pretaxincome'', Plain), (''taxprovision'', Plain), (''netincome'', Plain),
     (''basiceps'', Plain), (''dilutedeps'', Plain), (''ebit'', Plain),
     (''ebitda'', Plain), (''operatingrevenue'', Plain),
     (''sellinggeneralandadministration'', Plain), (''researchanddevelopment'', Plain),
     (''netincomefromcontinuingoperationnetminorityinterest'', Plain),
     (''netincomecommonstockholders'', Plain), (''created_at'', Timestamp)]"
  by code_simp

lemma cash_flow_folded:
  "map (\<lambda>(c, df). (fold_ident c, df)) cash_flow_ddl =
    [(''id'', Serial), (''symbol'', Plain), (''asofdate'', Plain),
     (''currencycode'', Plain), (''operatingcashflow'', Plain),
     (''investingcashflow'', Plain), (''financingcashflow'', Plain),
     (''netincome'', Plain), (''depreciationandamortization'', Plain),
     (''changeinworkingcapital'', Plain), (''capitalexpenditure'', Plain),
     (''netbusinesspurchaseandsale'', Plain), (''netinvestmentpurchaseandsale'', Plain),
     (''netppepurchaseandsale'', Plain), (''issuanceofdebt'', Plain),
     (''repaymentofdebt'', Plain), (''commonstockissuance'', Plain),
     (''commonstockpayments'', Plain), (''freecashflow'', Plain),
     (''beginningcashposition'', Plain), (''endcashposition'', Plain),
     (''created_at'', Timestamp)]"
  by code_simp

lemma org_overview_folded:
  "map (\<lambda>(c, df). (fold_ident c, df)) org_overview_ddl =
    [(''id'', Serial), (''symbol'', Plain), (''address1'', Plain), (''city'', Plain),
     (''zip'', Plain), (''country'', Plain), (''phone'', Plain), (''website'', Plain),
     (''industry'', Plain), (''industrydisp'', Plain), (''sector'', Plain),
     (''longbusinesssummary'', Plain), (''fulltimeemployees'', Plain),
     (''pricehint'', Plain), (''enterprisevalue'', Plain), (''bookvalue'', Plain),
     (''pricetobook'', Plain), (''enterprisetorevenue'', Plain), (''forwardpe'', Plain),
     (''enterprisetoebitda'', Plain), (''fiftytwoweekchange'', Plain),
     (''profitmargins'', Plain), (''floatshares'', Plain),
     (''sharesoutstanding'', Plain), (''sharesshort'', Plain), (''shortratio'', Plain),
     (''sharesshortpriormonth'', Plain), (''heldpercentinstitutions'', Plain),
     (''heldpercentinsiders'', Plain), (''trailingeps'', Plain), (''forwardeps'', Plain),
     (''created_at'', Timestamp)]"
  by code_simp

lemma calendar_events_folded:
  "map (\<lambda>(c, df). (fold_ident c, df)) calendar_events_ddl =
    [(''id'', Serial), (''symbol'', Plain), (''earnings_date'', Plain),
     (''earnings_average'', Plain), (''earnings_low'', Plain),
     (''earnings_high'', Plain), (''revenue_average'', Plain), (''revenue_low'', Plain),
     (''revenue_high'', Plain), (''created_at'', Timestamp)]"
  by code_simp

lemma exec_payment_packages_folded:
  "map (\<lambda>(c, df). (fold_ident c, df)) exec_payment_packages_ddl =
    [(''id'', Serial), (''symbol'', Plain), (''name'', Plain), (''title'', Plain),
     (''totalpay'', Plain), (''exercisedvalue'', Plain), (''unexercisedvalue'', Plain),
     (''created_at'', Timestamp)]"
  by code_simp

lemma institution_ownership_folded:
  "map (\<lambda>(c, df). (fold_ident c, df)) institution_ownership_ddl =
    [(''id'', Serial), (''symbol'', Plain), (''organization'', Plain),
     (''pctheld'', Plain), (''position'', Plain), (''value'', Plain),
     (''created_at'', Timestamp)]"
  by code_simp

lemma executive_ownership_folded:
  "map (\<lambda>(c, df). (fold_ident c, df)) executive_ownership_ddl =
    [(''id'', Serial), (''symbol'', Plain), (''name'', Plain), (''relation'', Plain),
     (''url'', Plain), (''transactiondescription'', Plain), (''latesttransdate'', Plain),
     (''positiondirect'', Plain), (''positiondirectdate'', Plain),
     (''created_at'', Timestamp)]"
  by code_simp

lemma valuation_measures_folded:
  "map (\<lambda>(c, df). (fold_ident c, df)) valuation_measures_ddl =
    [(''id'', Serial), (''symbol'', Plain), (''asofdate'', Plain),
     (''pricetoearningsratio'', Plain), (''pricetosalesratio'', Plain),
     (''pricetobookratio'', Plain), (''enterpisetorevenue'', Plain),
     (''enterpisetoebitda'', Plain), (''created_at'', Timestamp)]"
  by code_simp

lemma table_names_folded:
  "fold_ident ''price'' = ''price''"
  "fold_ident ''quarterly_price'' = ''quarterly_price''"
  "fold_ident ''announcement_price'' = ''announcement_price''"
  "fold_ident ''balance_sheet'' = ''balance_sheet''"
  "fold_ident ''income_statement'' = ''income_statement''"
  "fold_ident ''cash_flow'' = ''cash_flow''"
  "fold_ident ''org_overview'' = ''org_overview''"
  "fold_ident ''calendar_events'' = ''calendar_events''"
  "fold_ident ''exec_payment_packages'' = ''exec_payment_packages''"
  "fold_ident ''institution_ownership'' = ''institution_ownership''"
  "fold_ident ''executive_ownership'' = ''executive_ownership''"
  "fold_ident ''valuation_measures'' = ''valuation_measures''"
  by (simp_all add: fold_ident_def to_lower_def)

lemma schema_lookup [code]:
  "schema n =
    (if n = ''price'' then
       Some \<lparr>tcolumns =
               [(''id'', Serial), (''symbol'', Plain), (''regularmarketprice'', Plain),
                (''regularmarketchangepercent'', Plain),
                (''regularmarketchange'', Plain), (''regularmarkettime'', Plain),
                (''regularmarketdayhigh'', Plain), (''regularmarketdaylow'', Plain),
                (''regularmarketvolume'', Plain),
                (''regularmarketpreviousclose'', Plain),
                (''regularmarketsource'', Plain), (''regularmarketopen'', Plain),
                (''exchangename'', Plain), (''marketstate'', Plain),
                (''quotetype'', Plain), (''longname'', Plain), (''currency'', Plain),
                (''quotesourcename'', Plain), (''currencysymbol'', Plain),
                (''marketcap'', Plain), (''created_at'', Timestamp)],
             unique_indexes = [[''id'']], serial = 1, trows = []\<rparr>
     else if n = ''quarterly_price'' then
       Some \<lparr>tcolumns =
               [(''id'', Serial), (''symbol'', Plain), (''quarter'', Plain),
                (''year'', Plain), (''avg_price'', Plain), (''high_price'', Plain),
                (''low_price'', Plain), (''volume_avg'', Plain),
                (''created_at'', Timestamp)],
             unique_indexes = [[''id'']], serial = 1, trows = []\<rparr>
     else if n = ''announcement_price'' then
       Some \<lparr>tcolumns =
               [(''id'', Serial), (''symbol'', Plain), (''announcement_date'', Plain),
                (''announcement_type'', Plain), (''price_before'', Plain),
                (''price_after'', Plain), (''change_percent'', Plain),
                (''days_before'', Default (Num 1)), (''days_after'', Default (Num 1)),
                (''created_at'', Timestamp)],
             unique_indexes = [[''id'']], serial = 1, trows = []\<rparr>
     else if n = ''balance_sheet'' then
       Some \<lparr>tcolumns =
               [(''id'', Serial), (''symbol'', Plain), (''asofdate'', Plain),
                (''currencycode'', Plain), (''accountspayable'', Plain),
                (''accountsreceivable'', Plain), (''cashandcashequivalents'', Plain),
                (''commonstockequity'', Plain), (''currentassets'', Plain),
                (''currentliabilities'', Plain), (''goodwill'', Plain),
                (''grossppe'', Plain), (''inventory'', Plain), (''longtermdebt'', Plain),
                (''netdebt'', Plain), (''netppe'', Plain),
                (''nettangibleassets'', Plain), (''receivables'', Plain),
                (''retainedearnings'', Plain), (''totalassets'', Plain),
                (''totalequitygrossminorityinterest'', Plain),
                (''created_at'', Timestamp)],
             unique_indexes = [[''id'']], serial = 1, trows = []\<rparr>
     else if n = ''income_statement'' then
       Some \<lparr>tcolumns =
               [(''id'', Serial), (''symbol'', Plain), (''asofdate'', Plain),
                (''currencycode'', Plain), (''totalrevenue'', Plain),
                (''costofrevenue'', Plain), (''grossprofit'', Plain),
                (''operatingexpense'', Plain), (''operatingincome'', Plain),
                (''interestexpense'', Plain), (''pretaxincome'', Plain),
                (''taxprovision'', Plain), (''netincome'', Plain), (''basiceps'', Plain),
                (''dilutedeps'', Plain), (''ebit'', Plain), (''ebitda'', Plain),
                (''operatingrevenue'', Plain),
                (''sellinggeneralandadministration'', Plain),
                (''researchanddevelopment'', Plain),
                (''netincomefromcontinuingoperationnetminorityinterest'', Plain),
                (''netincomecommonstockholders'', Plain), (''created_at'', Timestamp)],
             unique_indexes = [[''id'']], serial = 1, trows = []\<rparr>
     else if n = ''cash_flow'' then
       Some \<lparr>tcolumns =
               [(''id'', Serial), (''symbol'', Plain), (''asofdate'', Plain),
                (''currencycode'', Plain), (''operatingcashflow'', Plain),
                (''investingcashflow'', Plain), (''financingcashflow'', Plain),
                (''netincome'', Plain), (''depreciationandamortization'', Plain),
                (''changeinworkingcapital'', Plain), (''capitalexpenditure'', Plain),
                (''netbusinesspurchaseandsale'', Plain),
                (''netinvestmentpurchaseandsale'', Plain),
                (''netppepurchaseandsale'', Plain), (''issuanceofdebt'', Plain),
                (''repaymentofdebt'', Plain), (''commonstockissuance'', Plain),
                (''commonstockpayments'', Plain), (''freecashflow'', Plain),
                (''beginningcashposition'', Plain), (''endcashposition'', Plain),
                (''created_at'', Timestamp)],
             unique_indexes = [[''id'']], serial = 1, trows = []\<rparr>
     else if n = ''org_overview'' then
       Some \<lparr>tcolumns =
               [(''id'', Serial), (''symbol'', Plain), (''address1'', Plain),
                (''city'', Plain), (''zip'', Plain), (''country'', Plain),
                (''phone'', Plain), (''website'', Plain), (''industry'', Plain),
                (''industrydisp'', Plain), (''sector'', Plain),
                (''longbusinesssummary'', Plain), (''fulltimeemployees'', Plain),
                (''pricehint'', Plain), (''enterprisevalue'', Plain),
                (''bookvalue'', Plain), (''pricetobook'', Plain),
                (''enterprisetorevenue'', Plain), (''forwardpe'', Plain),
                (''enterprisetoebitda'', Plain), (''fiftytwoweekchange'', Plain),
                (''profitmargins'', Plain), (''floatshares'', Plain),
                (''sharesoutstanding'', Plain), (''sharesshort'', Plain),
                (''shortratio'', Plain), (''sharesshortpriormonth'', Plain),
                (''heldpercentinstitutions'', Plain), (''heldpercentinsiders'', Plain),
                (''trailingeps'', Plain), (''forwardeps'', Plain),
                (''created_at'', Timestamp)],
             unique_indexes = [[''id'']], serial = 1, trows = []\<rparr>
     else if n = ''calendar_events'' then
       Some \<lparr>tcolumns =
               [(''id'', Serial), (''symbol'', Plain), (''earnings_date'', Plain),
                (''earnings_average'', Plain), (''earnings_low'', Plain),
                (''earnings_high'', Plain), (''revenue_average'', Plain),
                (''revenue_low'', Plain), (''revenue_high'', Plain),
                (''created_at'', Timestamp)],
             unique_indexes = [[''id'']], serial = 1, trows = []\<rparr>
     else if n = ''exec_payment_packages'' then
       Some \<lparr>tcolumns =
               [(''id'', Serial), (''symbol'', Plain), (''name'', Plain),
                (''title'', Plain), (''totalpay'', Plain), (''exercisedvalue'', Plain),
                (''unexercisedvalue'', Plain), (''created_at'', Timestamp)],
             unique_indexes = [[''id'']], serial = 1, trows = []\<rparr>
     else if n = ''institution_ownership'' then
       Some \<lparr>tcolumns =
               [(''id'', Serial), (''symbol'', Plain), (''organization'', Plain),
                (''pctheld'', Plain), (''position'', Plain), (''value'', Plain),
                (''created_at'', Timestamp)],
             unique_indexes = [[''id'']], serial = 1, trows = []\<rparr>
     else if n = ''executive_ownership'' then
       Some \<lparr>tcolumns =
               [(''id'', Serial), (''symbol'', Plain), (''name'', Plain),
                (''relation'', Plain), (''url'', Plain),
                (''transactiondescription'', Plain), (''latesttransdate'', Plain),
                (''positiondirect'', Plain), (''positiondirectdate'', Plain),
                (''created_at'', Timestamp)],
             unique_indexes = [[''id'']], serial = 1, trows = []\<rparr>
     else if n = ''valuation_measures'' then
       Some \<lparr>tcolumns =
               [(''id'', Serial), (''symbol'', Plain), (''asofdate'', Plain),
                (''pricetoearningsratio'', Plain), (''pricetosalesratio'', Plain),
                (''pricetobookratio'', Plain), (''enterpisetorevenue'', Plain),
                (''enterpisetoebitda'', Plain), (''created_at'', Timestamp)],
             unique_indexes = [[''id'']], serial = 1, trows = []\<rparr>
     else None)"
  by (simp add: schema_def create_all_tables_def create_table_def table_names_folded
      price_folded quarterly_price_folded announcement_price_folded
      balance_sheet_folded income_statement_folded cash_flow_folded
      org_overview_folded calendar_events_folded exec_payment_packages_folded
      institution_ownership_folded executive_ownership_folded valuation_measures_folded)

section \<open>Properties of the inserter\<close>

subsection \<open>Connections, log and transactions\<close>

lemma get_db_connection_ok:
  "connects w \<Longrightarrow> get_db_connection w = (True, connected w)"
  by (cases "connect_oracle w") (auto simp: connects_def get_db_connection_def connected_def)

lemma get_db_connection_down:
  "\<not> connects w \<Longrightarrow> fst (get_db_connection w) = False"
  by (cases "connect_oracle w") (auto simp: connects_def get_db_connection_def)

lemma connected_fields [simp]:
  "tables (connected w) = tables w" "clock (connected w) = clock w"
  "today (connected w) = today w" "logged (connected w) = logged w"
  by (simp_all add: connected_def)

lemma logging_fields [simp]:
  "tables (logging lv m w) = tables w" "clock (logging lv m w) = clock w"
  "connect_oracle (logging lv m w) = connect_oracle w"
  "logged (logging lv m w) = logged w @ [(lv, m)]"
  by (simp_all add: logging_def)

subsection \<open>The generic upsert, path by path\<close>

lemma insert_dataframe_no_data:
  "df = None \<or> df_empty (the df) \<Longrightarrow>
   insert_dataframe_to_table df tn t key w =
     (Inr False, logging WARNING (''No '' @ tn @ '' data to insert for '' @ t) w)"
  by (auto simp: insert_dataframe_to_table_def)

lemma insert_dataframe_no_columns:
  "\<not> df_empty f \<Longrightarrow> connects w \<Longrightarrow>
   intersect_columns f (get_table_columns (tables w) tn) = [] \<Longrightarrow>
   insert_dataframe_to_table (Some f) tn t key w =
     (Inr False,
      logging WARNING (''No matching columns for '' @ tn @ '' table for '' @ t) (connected w))"
  by (simp add: insert_dataframe_to_table_def get_db_connection_ok)

lemma insert_dataframe_rejected:
  "\<not> df_empty f \<Longrightarrow> connects w \<Longrightarrow>
   intersect_columns f (get_table_columns (tables w) tn) \<noteq> [] \<Longrightarrow>
   execute_all (upsert_statements f (get_table_columns (tables w) tn) tn key)
     (clock w) (tables w) = Inl e \<Longrightarrow>
   insert_dataframe_to_table (Some f) tn t key w =
     (Inr False, logging ERROR (''Error inserting '' @ tn @ '' data for '' @ t) (connected w))"
  by (simp add: insert_dataframe_to_table_def get_db_connection_ok transact_def)

lemma insert_dataframe_committed:
  "\<not> df_empty f \<Longrightarrow> connects w \<Longrightarrow>
   intersect_columns f (get_table_columns (tables w) tn) \<noteq> [] \<Longrightarrow>
   execute_all (upsert_statements f (get_table_columns (tables w) tn) tn key)
     (clock w) (tables w) = Inr d \<Longrightarrow>
   insert_dataframe_to_table (Some f) tn t key w =
     (Inr True,
      logging INFO (''Inserted/Updated rows into '' @ tn @ '' for '' @ t)
        ((connected w)\<lparr>tables := d\<rparr>))"
  by (simp add: insert_dataframe_to_table_def get_db_connection_ok transact_def)


lemma insert_dataframe_keeps_tables:
  "fst (insert_dataframe_to_table df tn t key w) \<noteq> Inr True \<Longrightarrow>
   tables (snd (insert_dataframe_to_table df tn t key w)) = tables w"
  by (auto simp: insert_dataframe_to_table_def get_db_connection_def transact_def Let_def
      split: sum.splits list.splits if_splits)

text \<open>
  C7. The specification: an empty row set or an empty schema intersection is reported as a
  no-op that the caller can tell from a database error. The code gives both the same
  return value. On the freshly created schema, \<open>insert_balance_sheet\<close> returns \<open>False\<close>
  for no data, and returns \<open>False\<close> for a frame whose statement the database rejects.
\<close>

theorem generic_upsert_same_signal:
  "fst (insert_balance_sheet ''ACME'' None fresh) = Inr False \<and>
   fst (insert_balance_sheet ''ACME'' (Some acme_sheet) fresh) = Inr False \<and>
   isl (execute_all
          (upsert_statements acme_sheet (get_table_columns (tables fresh) ''balance_sheet'')
             ''balance_sheet'' [''symbol'', ''asOfDate''])
          (clock fresh) (tables fresh))"
  by code_simp

text \<open>
  C7, as the code has it. With no data (no frame, or an empty one) the call logs a
  warning and returns \<open>False\<close> without connecting; with a frame none of whose columns is
  in the live schema it logs a warning and returns \<open>False\<close>; when the database rejects
  the statement it logs an error and returns \<open>False\<close> as well. In all three cases the
  tables are as before; the return value is the same and only the log level differs.
\<close>

theorem generic_upsert_nothing_to_insert:
  "(df = None \<or> df_empty (the df) \<longrightarrow>
      insert_dataframe_to_table df tn t key w =
        (Inr False, logging WARNING (''No '' @ tn @ '' data to insert for '' @ t) w)) \<and>
   (\<not> df_empty f \<and> connects w \<and>
    intersect_columns f (get_table_columns (tables w) tn) = [] \<longrightarrow>
      insert_dataframe_to_table (Some f) tn t key w =
        (Inr False,
         logging WARNING (''No matching columns for '' @ tn @ '' table for '' @ t)
           (connected w))) \<and>
   (\<not> df_empty f \<and> connects w \<and>
    intersect_columns f (get_table_columns (tables w) tn) \<noteq> [] \<and>
    execute_all (upsert_statements f (get_table_columns (tables w) tn) tn key)
      (clock w) (tables w) = Inl e \<longrightarrow>
      insert_dataframe_to_table (Some f) tn t key w =
        (Inr False,
         logging ERROR (''Error inserting '' @ tn @ '' data for '' @ t) (connected w)))"
  using insert_dataframe_no_data [of df tn t key w]
    insert_dataframe_no_columns [of f w tn t key]
    insert_dataframe_rejected [of f w tn key e t]
  by blast

theorem generic_upsert_nothing_to_insert_witness:
  "insert_dataframe_to_table None ''balance_sheet'' ''ACME'' [''symbol'', ''asOfDate''] fresh =
     (Inr False,
      logging WARNING (''No '' @ ''balance_sheet'' @ '' data to insert for '' @ ''ACME'') fresh) \<and>
   \<not> df_empty acme_raw \<and> connects fresh \<and>
   intersect_columns acme_raw (get_table_columns (tables fresh) ''balance_sheet'') = [] \<and>
   insert_dataframe_to_table (Some acme_raw) ''balance_sheet'' ''ACME''
       [''symbol'', ''asOfDate''] fresh =
     (Inr False,
      logging WARNING
        (''No matching columns for '' @ ''balance_sheet'' @ '' table for '' @ ''ACME'')
        (connected fresh)) \<and>
   \<not> df_empty acme_sheet \<and>
   intersect_columns acme_sheet (get_table_columns (tables fresh) ''balance_sheet'') \<noteq> [] \<and>
   execute_all
     (upsert_statements acme_sheet (get_table_columns (tables fresh) ''balance_sheet'')
        ''balance_sheet'' [''symbol'', ''asOfDate''])
     (clock fresh) (tables fresh) = Inl SyntaxError \<and>
   insert_dataframe_to_table (Some acme_sheet) ''balance_sheet'' ''ACME''
       [''symbol'', ''asOfDate''] fresh =
     (Inr False,
      logging ERROR (''Error inserting '' @ ''balance_sheet'' @ '' data for '' @ ''ACME'')
        (connected fresh))"
proof -
  have h0: "(None :: frame option) = None \<or> df_empty (the None)" by simp
  have h1: "\<not> df_empty acme_raw" by code_simp
  have h2: "connects fresh" by code_simp
  have h3: "intersect_columns acme_raw (get_table_columns (tables fresh) ''balance_sheet'') = []"
    by code_simp
  have h4: "\<not> df_empty acme_sheet" by code_simp
  have h5: "intersect_columns acme_sheet (get_table_columns (tables fresh) ''balance_sheet'')
              \<noteq> []"
    by code_simp
  have "case execute_all
               (upsert_statements acme_sheet (get_table_columns (tables fresh) ''balance_sheet'')
                  ''balance_sheet'' [''symbol'', ''asOfDate''])
               (clock fresh) (tables fresh) of
          Inl e \<Rightarrow> e = SyntaxError | Inr d \<Rightarrow> False"
    by code_simp
  then have h6: "execute_all
     (upsert_statements acme_sheet (get_table_columns (tables fresh) ''balance_sheet'')
        ''balance_sheet'' [''symbol'', ''asOfDate''])
     (clock fresh) (tables fresh) = Inl SyntaxError"
    by (simp split: sum.splits)
  from generic_upsert_nothing_to_insert
         [of None "''balance_sheet''" "''ACME''" "[''symbol'', ''asOfDate'']" fresh acme_raw]
       h0 h1 h2 h3
  have a: "insert_dataframe_to_table None ''balance_sheet'' ''ACME'' [''symbol'', ''asOfDate'']
             fresh =
     (Inr False,
      logging WARNING (''No '' @ ''balance_sheet'' @ '' data to insert for '' @ ''ACME'') fresh)"
    and b: "insert_dataframe_to_table (Some acme_raw) ''balance_sheet'' ''ACME''
       [''symbol'', ''asOfDate''] fresh =
     (Inr False,
      logging WARNING
        (''No matching columns for '' @ ''balance_sheet'' @ '' table for '' @ ''ACME'')
        (connected fresh))"
    by blast+
  from generic_upsert_nothing_to_insert
         [of None "''balance_sheet''" "''ACME''" "[''symbol'', ''asOfDate'']" fresh acme_sheet
             SyntaxError]
       h2 h4 h5 h6
  have c: "insert_dataframe_to_table (Some acme_sheet) ''balance_sheet'' ''ACME''
       [''symbol'', ''asOfDate''] fresh =
     (Inr False,
      logging ERROR (''Error inserting '' @ ''balance_sheet'' @ '' data for '' @ ''ACME'')
        (connected fresh))"
    by blast
  from a b c h1 h2 h3 h4 h5 h6 show ?thesis by blast
qed

text \<open>
  C8. The specification: when a column of the declared conflict key is not among the
  schema-intersected columns, the call raises a visible error instead of inserting
  duplicates. The code has no such check. On a balance-sheet table that has the unique
  index on \<open>(symbol, asOfDate)\<close>, a frame without a date column is stored with a NULL
  date; NULLs never collide, so the same call made twice returns \<open>True\<close> twice and
  leaves two rows for one (symbol, period).
\<close>

theorem generic_upsert_duplicates_silently:
  "''asOfDate'' \<notin> set (intersect_columns acme_undated
                         (get_table_columns (tables keyed) ''balance_sheet'')) \<and>
   fst (insert_balance_sheet ''ACME'' (Some acme_undated) keyed) = Inr True \<and>
   fst (twice (insert_balance_sheet ''ACME'' (Some acme_undated)) keyed) = Inr True \<and>
   row_count (snd (insert_balance_sheet ''ACME'' (Some acme_undated) keyed)) ''balance_sheet'' = 1 \<and>
   row_count (snd (twice (insert_balance_sheet ''ACME'' (Some acme_undated)) keyed))
     ''balance_sheet'' = 2"
  by code_simp

lemma upsert_statements_target:
  "list_all (\<lambda>st. conflict_target st = key) (upsert_statements f cols tn key)"
  by (simp add: upsert_statements_def list_all_iff conflict_target_def Let_def)

text \<open>
  C8, as the code has it. Whether or not the conflict key is among the intersected
  columns, the call sends its statements with the declared conflict target and raises
  nothing: it returns \<open>True\<close> when the database accepts them and \<open>False\<close> (after
  logging the error) when the database rejects them.
\<close>

theorem generic_upsert_sends_unchecked_key:
  assumes "\<not> df_empty f" and "connects w"
    and "intersect_columns f (get_table_columns (tables w) tn) \<noteq> []"
    and "\<not> list_all (\<lambda>k. k \<in> set (intersect_columns f (get_table_columns (tables w) tn))) key"
  shows "fst (insert_dataframe_to_table (Some f) tn t key w) =
           Inr (\<not> isl (execute_all
                         (upsert_statements f (get_table_columns (tables w) tn) tn key)
                         (clock w) (tables w))) \<and>
         list_all (\<lambda>st. conflict_target st = key)
           (upsert_statements f (get_table_columns (tables w) tn) tn key)"
proof (cases "execute_all (upsert_statements f (get_table_columns (tables w) tn) tn key)
                (clock w) (tables w)")
  case (Inl e)
  with assms insert_dataframe_rejected [of f w tn key e t] upsert_statements_target
  show ?thesis by simp
next
  case (Inr d)
  with assms insert_dataframe_committed [of f w tn key d t] upsert_statements_target
  show ?thesis by simp
qed

theorem generic_upsert_sends_unchecked_key_witness:
  "\<not> df_empty acme_undated \<and> connects keyed \<and>
   intersect_columns acme_undated (get_table_columns (tables keyed) ''balance_sheet'') \<noteq> [] \<and>
   \<not> list_all (\<lambda>k. k \<in> set (intersect_columns acme_undated
                                  (get_table_columns (tables keyed) ''balance_sheet'')))
        [''symbol'', ''asOfDate''] \<and>
   fst (insert_dataframe_to_table (Some acme_undated) ''balance_sheet'' ''ACME''
          [''symbol'', ''asOfDate''] keyed) =
     Inr (\<not> isl (execute_all
                   (upsert_statements acme_undated
                      (get_table_columns (tables keyed) ''balance_sheet'') ''balance_sheet''
                      [''symbol'', ''asOfDate''])
                   (clock keyed) (tables keyed)))"
proof -
  have h1: "\<not> df_empty acme_undated" by code_simp
  have h2: "connects keyed" by code_simp
  have h3: "intersect_columns acme_undated
              (get_table_columns (tables keyed) ''balance_sheet'') \<noteq> []"
    by code_simp
  have h4: "\<not> list_all (\<lambda>k. k \<in> set (intersect_columns acme_undated
                                  (get_table_columns (tables keyed) ''balance_sheet'')))
        [''symbol'', ''asOfDate'']"
    by code_simp
  from generic_upsert_sends_unchecked_key [OF h1 h2 h3 h4, of "''ACME''"] h1 h2 h3 h4
  show ?thesis by blast
qed

subsection \<open>Institutional holders\<close>

lemma delete_symbol_ok:
  "d (fold_ident tn) = Some tb \<Longrightarrow> ''symbol'' \<in> set (col_names tb) \<Longrightarrow>
   execute (DeleteSymbol tn v) ts d =
     Inr (d(fold_ident tn \<mapsto> tb\<lparr>trows := filter (\<lambda>r. r ''symbol'' \<noteq> v) (trows tb)\<rparr>))"
  by (simp add: execute_def)

text \<open>
  C10. \<open>insert_institution_ownership\<close> deletes the ticker's stored rows before it looks
  at the frame: when the database is reachable and the table has its \<open>symbol\<close> column,
  the call is the generic upsert run on the tables with those rows removed. With no
  frame or an empty one it therefore returns \<open>False\<close> and the rows are gone all the same.
\<close>

theorem institution_ownership_cleared_first:
  assumes "connects w" and "tables w ''institution_ownership'' = Some tb"
    and "''symbol'' \<in> set (col_names tb)"
  shows "insert_institution_ownership t df w =
           insert_dataframe_to_table df ''institution_ownership'' t [''symbol'', ''organization'']
             ((connected w)\<lparr>tables := (tables w)(''institution_ownership'' \<mapsto>
                tb\<lparr>trows := filter (\<lambda>r. r ''symbol'' \<noteq> Text t) (trows tb)\<rparr>)\<rparr>) \<and>
         (df = None \<or> df_empty (the df) \<longrightarrow>
            fst (insert_institution_ownership t df w) = Inr False \<and>
            tables (snd (insert_institution_ownership t df w)) ''institution_ownership'' =
              Some (tb\<lparr>trows := filter (\<lambda>r. r ''symbol'' \<noteq> Text t) (trows tb)\<rparr>))"
proof -
  have del: "execute (DeleteSymbol ''institution_ownership'' (Text t)) (clock w) (tables w) =
     Inr ((tables w)(''institution_ownership'' \<mapsto>
            tb\<lparr>trows := filter (\<lambda>r. r ''symbol'' \<noteq> Text t) (trows tb)\<rparr>))"
    using delete_symbol_ok [of "tables w" "''institution_ownership''" tb "Text t" "clock w"] assms
    by (simp add: table_names_folded)
  have eq: "insert_institution_ownership t df w =
           insert_dataframe_to_table df ''institution_ownership'' t [''symbol'', ''organization'']
             ((connected w)\<lparr>tables := (tables w)(''institution_ownership'' \<mapsto>
                tb\<lparr>trows := filter (\<lambda>r. r ''symbol'' \<noteq> Text t) (trows tb)\<rparr>)\<rparr>)"
    using assms(1) del
    by (simp add: insert_institution_ownership_def get_db_connection_ok transact_def)
  show ?thesis
    unfolding eq by (auto simp: insert_dataframe_no_data)
qed

theorem institution_ownership_cleared_first_witness:
  "connects holders \<and>
   tables holders ''institution_ownership'' =
     Some (the (tables holders ''institution_ownership'')) \<and>
   ''symbol'' \<in> set (col_names (the (tables holders ''institution_ownership''))) \<and>
   fst (insert_institution_ownership ''ACME'' None holders) = Inr False \<and>
   tables (snd (insert_institution_ownership ''ACME'' None holders)) ''institution_ownership'' =
     Some ((the (tables holders ''institution_ownership''))
       \<lparr>trows := filter (\<lambda>r. r ''symbol'' \<noteq> Text ''ACME'')
                  (trows (the (tables holders ''institution_ownership'')))\<rparr>) \<and>
   stored holders ''institution_ownership'' [''symbol'', ''organization''] =
     [[Text ''ACME'', Text ''Vanguard''], [Text ''INIT'', Text ''Vanguard'']] \<and>
   stored (snd (insert_institution_ownership ''ACME'' None holders)) ''institution_ownership''
       [''symbol'', ''organization''] =
     [[Text ''INIT'', Text ''Vanguard'']]"
proof -
  have h1: "connects holders" by code_simp
  have "\<not> Option.is_none (tables holders ''institution_ownership'')" by code_simp
  then have h2: "tables holders ''institution_ownership'' =
     Some (the (tables holders ''institution_ownership''))"
    by (simp add: Option.is_none_def)
  have h3: "''symbol'' \<in> set (col_names (the (tables holders ''institution_ownership'')))"
    by code_simp
  have h4: "stored holders ''institution_ownership'' [''symbol'', ''organization''] =
     [[Text ''ACME'', Text ''Vanguard''], [Text ''INIT'', Text ''Vanguard'']]"
    by code_simp
  have h5: "stored (snd (insert_institution_ownership ''ACME'' None holders))
       ''institution_ownership'' [''symbol'', ''organization''] =
     [[Text ''INIT'', Text ''Vanguard'']]"
    by code_simp
  have h6: "(None :: frame option) = None \<or> df_empty (the None)" by simp
  from institution_ownership_cleared_first [OF h1 h2 h3, of "''ACME''" None] h6
  have "fst (insert_institution_ownership ''ACME'' None holders) = Inr False \<and>
     tables (snd (insert_institution_ownership ''ACME'' None holders)) ''institution_ownership'' =
       Some ((the (tables holders ''institution_ownership''))
         \<lparr>trows := filter (\<lambda>r. r ''symbol'' \<noteq> Text ''ACME'')
                    (trows (the (tables holders ''institution_ownership'')))\<rparr>)"
    by blast
  with h1 h2 h3 h4 h5 show ?thesis by blast
qed

subsection \<open>The rows an upsert writes\<close>

lemma position_Some: "position P xs = Some i \<Longrightarrow> i < length xs \<and> P (xs ! i)"
proof (induction xs arbitrary: i)
  case Nil
  then show ?case by simp
next
  case (Cons x xs)
  then show ?case by (cases "P x") (auto split: if_splits)
qed

lemma bump_serial_fields [simp]:
  "trows (bump_serial tb cols) = trows tb"
  "tcolumns (bump_serial tb cols) = tcolumns tb"
  "unique_indexes (bump_serial tb cols) = unique_indexes tb"
  by (simp_all add: bump_serial_def)


text \<open>Columns outside the assignments keep their value in every row that was there.\<close>

lemma upsert_rows_spares:
  "upsert_rows tb ts cols key upd vals touched = Inr tb' \<Longrightarrow>
   length (trows tb) \<le> length (trows tb') \<and>
   (\<forall>i < length (trows tb). \<forall>c. c \<notin> set upd \<longrightarrow> c \<noteq> ''created_at'' \<longrightarrow>
      (trows tb' ! i) c = (trows tb ! i) c)"
proof (induction vals arbitrary: tb touched)
  case Nil
  then show ?case by simp
next
  case (Cons vs rest)
  let ?new = "proposed tb ts cols vs"
  show ?case
  proof (cases "position (same_key key ?new) (trows tb)")
    case None
    with Cons.prems have run:
      "upsert_rows ((bump_serial tb cols)\<lparr>trows := trows tb @ [?new]\<rparr>) ts cols key upd rest
         (length (trows tb) # touched) = Inr tb'"
      by (simp add: Let_def split: if_splits)
    from Cons.IH [OF run] show ?thesis
      by (auto simp: nth_append)
  next
    case (Some i)
    let ?row = "\<lambda>c. if c \<in> set upd then ?new c
                     else if c = ''created_at'' then ts else (trows tb ! i) c"
    from Some Cons.prems have run:
      "upsert_rows ((bump_serial tb cols)\<lparr>trows := (trows tb)[i := ?row]\<rparr>) ts cols key upd rest
         (i # touched) = Inr tb'"
      by (simp add: Let_def split: if_splits)
    from Some have i_lt: "i < length (trows tb)"
      using position_Some by blast
    have step: "\<And>j c. j < length (trows tb) \<Longrightarrow> c \<notin> set upd \<Longrightarrow> c \<noteq> ''created_at'' \<Longrightarrow>
                  ((trows tb)[i := ?row] ! j) c = (trows tb ! j) c"
      using i_lt by (simp add: nth_list_update)
    from Cons.IH [OF run] step show ?thesis
      by simp
  qed
qed







lemma insert_dataframe_true:
  assumes "fst (insert_dataframe_to_table (Some f) tn t key w) = Inr True"
  shows "\<not> df_empty f \<and> connects w \<and>
         intersect_columns f (get_table_columns (tables w) tn) \<noteq> [] \<and>
         execute_all (upsert_statements f (get_table_columns (tables w) tn) tn key)
           (clock w) (tables w) =
         Inr (tables (snd (insert_dataframe_to_table (Some f) tn t key w)))"
proof -
  from assms have ne: "\<not> df_empty f"
    by (auto simp: insert_dataframe_to_table_def)
  have con: "connects w"
  proof (rule ccontr)
    assume "\<not> connects w"
    then have "fst (get_db_connection w) = False" by (rule get_db_connection_down)
    with ne have "fst (insert_dataframe_to_table (Some f) tn t key w) = Inl OperationalError"
      by (cases "get_db_connection w") (simp add: insert_dataframe_to_table_def)
    with assms show False by simp
  qed
  from assms ne con have cols: "intersect_columns f (get_table_columns (tables w) tn) \<noteq> []"
    by (auto simp: insert_dataframe_to_table_def get_db_connection_ok)
  from assms ne con cols show ?thesis
    by (auto simp: insert_dataframe_to_table_def get_db_connection_ok transact_def
        split: sum.splits)
qed



subsection \<open>The conflict clause\<close>




subsection \<open>Tables without the unique index\<close>

lemma upsert_rejected_without_index:
  "lacks_index d t key \<Longrightarrow> isl (execute (Upsert t cols vals key upd) ts d)"
  by (auto simp: lacks_index_def execute_def check_insert_def split: option.splits)

lemma insert_ignore_rejected_without_index:
  "lacks_index d t key \<Longrightarrow> isl (execute (InsertIgnore t cols vals key) ts d)"
  by (auto simp: lacks_index_def execute_def check_insert_def split: option.splits)

lemma schema_only_primary_keys:
  "schema n = Some tb \<Longrightarrow> unique_indexes tb = [[''id'']]"
  by (auto simp: schema_lookup split: if_splits)

lemma paginate_nonempty: "xs \<noteq> [] \<Longrightarrow> 0 < n \<Longrightarrow> paginate n xs \<noteq> []"
  by (cases xs) auto

lemma schema_lacks_index:
  "set (map fold_ident key) \<noteq> {''id''} \<Longrightarrow> lacks_index schema t key"
  using schema_only_primary_keys [of "fold_ident t"]
  by (auto simp: lacks_index_def split: option.splits)

text \<open>
  Without a unique index on the conflict key, or without the table, the generic upsert
  stores nothing, whatever the frame; this is the case of every generic target on the
  created schema.
\<close>

lemma generic_upsert_needs_unique_index:
  assumes no_index: "lacks_index (tables w) tn key"
  shows "fst (insert_dataframe_to_table df tn t key w) \<noteq> Inr True \<and>
         tables (snd (insert_dataframe_to_table df tn t key w)) = tables w"
proof -
  have "fst (insert_dataframe_to_table df tn t key w) \<noteq> Inr True"
  proof
    assume ok: "fst (insert_dataframe_to_table df tn t key w) = Inr True"
    then obtain f where f: "df = Some f"
      by (cases df) (auto simp: insert_dataframe_to_table_def)
    let ?stmts = "upsert_statements f (get_table_columns (tables w) tn) tn key"
    from insert_dataframe_true [of f tn t key w] ok f
    have ne: "\<not> df_empty f" and run: "\<not> isl (execute_all ?stmts (clock w) (tables w))"
      by auto
    from ne have "map (\<lambda>row. map row
                    (intersect_columns f (get_table_columns (tables w) tn))) (rows f) \<noteq> []"
      by (simp add: df_empty_def)
    then have "paginate 100 (map (\<lambda>row. map row
                    (intersect_columns f (get_table_columns (tables w) tn))) (rows f)) \<noteq> []"
      by (rule paginate_nonempty) simp
    then obtain st rest where st: "?stmts = st # rest"
      by (cases ?stmts) (auto simp: upsert_statements_def Let_def)
    then have "st \<in> set ?stmts" by simp
    then obtain cols vals upd where "st = Upsert tn cols vals key upd"
      by (auto simp: upsert_statements_def Let_def)
    with upsert_rejected_without_index [OF no_index, of cols vals upd "clock w"]
    have "isl (execute st (clock w) (tables w))" by simp
    with st have "isl (execute_all ?stmts (clock w) (tables w))"
      by (auto split: sum.splits)
    with run show False by simp
  qed
  then show ?thesis
    using insert_dataframe_keeps_tables by blast
qed

lemma created_schema_stores_no_frame:
  "tables w = schema \<Longrightarrow> set (map fold_ident key) \<noteq> {''id''} \<Longrightarrow>
   fst (insert_dataframe_to_table df tn t key w) \<noteq> Inr True \<and>
   tables (snd (insert_dataframe_to_table df tn t key w)) = schema"
  using generic_upsert_needs_unique_index [of w tn key df t] schema_lacks_index [of key tn]
  by simp

text \<open>With the unique index in place, the same frame sent twice is stored once.\<close>

lemma keyed_upsert_is_idempotent:
  "row_count (snd (insert_balance_sheet ''ACME'' (Some acme_dated) keyed)) ''balance_sheet'' = 1 \<and>
   row_count (snd (twice (insert_balance_sheet ''ACME'' (Some acme_dated)) keyed))
     ''balance_sheet'' = 1 \<and>
   stored (snd (twice (insert_balance_sheet ''ACME'' (Some acme_dated)) keyed)) ''balance_sheet''
       [''symbol'', ''asofdate'', ''totalassets''] =
     [[Text ''ACME'', Text ''2024-12-31'', Num 5000]]"
  by code_simp

text \<open>
  C5. The specification: the generic upsert, called twice with the same rows, leaves exactly one
  stored row per conflict-key value. On the schema that \<open>create_all_tables\<close> creates,
  no table has a unique index on its conflict key, so the database rejects every such
  statement (\<open>created_schema_stores_no_frame\<close>).
  A one-period balance sheet of ACME, under the extractor's column labels or under the
  catalogue's, is stored neither by the first call nor by the second: both return
  \<open>False\<close> and the table stays empty.
\<close>

theorem balance_sheet_upsert_stores_nothing:
  "fst (insert_balance_sheet ''ACME'' (Some acme_sheet) fresh) = Inr False \<and>
   fst (twice (insert_balance_sheet ''ACME'' (Some acme_sheet)) fresh) = Inr False \<and>
   row_count (snd (twice (insert_balance_sheet ''ACME'' (Some acme_sheet)) fresh))
     ''balance_sheet'' = 0 \<and>
   fst (insert_balance_sheet ''ACME'' (Some acme_dated) fresh) = Inr False \<and>
   fst (twice (insert_balance_sheet ''ACME'' (Some acme_dated)) fresh) = Inr False \<and>
   row_count (snd (twice (insert_balance_sheet ''ACME'' (Some acme_dated)) fresh))
     ''balance_sheet'' = 0"
  by code_simp

text \<open>
  C9. The specification: a price record inserted a second time with an unchanged key adds no
  row. On the created schema the statement is rejected, since no unique index matches
  \<open>ON CONFLICT (symbol, regularMarketTime)\<close>: no insert ever succeeds. With that index
  in place the first insert succeeds, but the statement never supplies
  \<open>regularMarketTime\<close>, the stored key is NULL and NULLs do not collide: the second
  insert of the same record adds a second row.
\<close>

theorem price_insert_never_first_write_wins:
  "fst (insert_price_data ''ACME'' (Some acme_quote) fresh) = Inr False \<and>
   row_count (snd (insert_price_data ''ACME'' (Some acme_quote) fresh)) ''price'' = 0 \<and>
   fst (insert_price_data ''ACME'' (Some acme_quote) keyed) = Inr True \<and>
   row_count (snd (insert_price_data ''ACME'' (Some acme_quote) keyed)) ''price'' = 1 \<and>
   fst (twice (insert_price_data ''ACME'' (Some acme_quote)) keyed) = Inr True \<and>
   stored (snd (twice (insert_price_data ''ACME'' (Some acme_quote)) keyed)) ''price''
       [''symbol'', ''regularmarkettime'', ''regularmarketprice''] =
     [[Text ''ACME'', Null, Num 10], [Text ''ACME'', Null, Num 10]]"
  by code_simp

subsection \<open>Which exceptions leave a method\<close>


lemma always_connects_logging [simp]:
  "always_connects (logging lv m w) = always_connects w"
  by (simp add: always_connects_def)












end
